theory Spec2Isabelle
  imports Complex_Main "HOL-Library.Sublist"
begin

section \<open>The bookmark vault of \<^verbatim>\<open>src/bookmark/app/page.tsx\<close>\<close>

text \<open>
  The page is one React component. Its state is a tuple of \<^verbatim>\<open>useState\<close> cells, and every
  handler reads the cells of the current render and calls setters. A handler is modelled as a
  function from the state of the render it runs in to the state after its setter calls; what
  the handler reads from the platform (the clock, \<^verbatim>\<open>window.confirm\<close>, \<^verbatim>\<open>JSON.parse\<close>,
  \<^verbatim>\<open>new URL\<close>, \<^verbatim>\<open>fetch\<close>, \<^verbatim>\<open>localStorage\<close>) is a parameter of the function.

  Strings are lists of 8-bit characters, a character beyond ASCII being its bytes in UTF-8;
  \<^verbatim>\<open>===\<close> on strings is equality of lists.
\<close>

subsection \<open>Types and interfaces\<close>

datatype media_type = Image | Video | Voice

record media_item =
  media_id :: string
  media_type :: media_type
  content :: string
  media_createdAt :: string

record bookmark =
  bookmark_id :: string
  title :: string
  url :: string
  description :: string
  bookmark_createdAt :: string
  media :: "media_item list"

record folder =
  folder_id :: string
  folder_name :: string
  password :: string
  bookmarks :: "bookmark list"

datatype toast_type = Success | Error

record toast_state =
  msg :: string
  type :: toast_type

datatype role = User | Model

text \<open>
  A value of type \<^verbatim>\<open>any\<close>: what \<^verbatim>\<open>JSON.parse\<close> and \<^verbatim>\<open>response.json()\<close> return. Of a number
  only whether it is zero is ever inspected. \<^verbatim>\<open>undefined\<close> is not a JSON value: an expression
  that may be \<^verbatim>\<open>undefined\<close> has type \<open>json option\<close>, with \<open>None\<close> for \<^verbatim>\<open>undefined\<close>.
\<close>

datatype json =
    JNull
  | JBool bool
  | JNumber real
  | JString string
  | JArray "json list"
  | JObject "(string \<times> json) list"

text \<open>
  The text of a chat message is declared \<^verbatim>\<open>string\<close>, but the reply of \<^verbatim>\<open>callGemini\<close> is stored
  in it unchecked, so it is kept as the value it is.
\<close>

record chat_message =
  role :: role
  chat_text :: json

text \<open>A call into the platform either throws or returns.\<close>

datatype 'a outcome = Throws | Returns 'a

subsection \<open>The component state\<close>

record state =
  folders :: "folder list"
  unlockedFolders :: "string set"
  activeFolderId :: "string option"
  searchQuery :: string
  sidebarOpen :: bool
  toast :: "toast_state option"
  isAddFolderModalOpen :: bool
  isAddBookmarkModalOpen :: bool
  isUnlockModalOpen :: bool
  isDetailModalOpen :: bool
  isOracleOpen :: bool
  folderToUnlock :: "string option"
  selectedBookmark :: "bookmark option"
  newFolderName :: string
  newFolderPass :: string
  newBookmarkTitle :: string
  newBookmarkUrl :: string
  newBookmarkDesc :: string
  newBookmarkImg :: "string option"
  unlockInput :: string
  videoUrlInput :: string
  isEnchanting :: bool
  oracleHistory :: "chat_message list"
  oracleInput :: string
  isOracleThinking :: bool

text \<open>
  \<^verbatim>\<open>showToast(msg, type = 'success')\<close> is \<^verbatim>\<open>setToast({ msg, type })\<close>.
\<close>

definition showToast :: "string \<Rightarrow> toast_type \<Rightarrow> state \<Rightarrow> state" where
  "showToast m t st = st\<lparr>toast := Some \<lparr>msg = m, type = t\<rparr>\<rparr>"

text \<open>
  The initial values of the \<^verbatim>\<open>useState\<close> cells, for the folders the store was loaded with.
\<close>

definition init :: "folder list \<Rightarrow> state" where
  "init fs =
     \<lparr>folders = fs,
      unlockedFolders = {},
      activeFolderId = None,
      searchQuery = [],
      sidebarOpen = True,
      toast = None,
      isAddFolderModalOpen = False,
      isAddBookmarkModalOpen = False,
      isUnlockModalOpen = False,
      isDetailModalOpen = False,
      isOracleOpen = False,
      folderToUnlock = None,
      selectedBookmark = None,
      newFolderName = [],
      newFolderPass = [],
      newBookmarkTitle = [],
      newBookmarkUrl = [],
      newBookmarkDesc = [],
      newBookmarkImg = None,
      unlockInput = [],
      videoUrlInput = [],
      isEnchanting = False,
      oracleHistory =
        [\<lparr>role = Model,
          chat_text = JString ''Greetings. I am the Oracle of the Vault. How may I assist you with your archives today?''\<rparr>],
      oracleInput = [],
      isOracleThinking = False\<rparr>"

subsection \<open>Strings of the platform\<close>

text \<open>
  \<^verbatim>\<open>String.prototype.trim\<close> strips white space and line terminators from both ends: TAB, LF,
  VT, FF, CR, SPACE, U+00A0, U+1680, U+2000 to U+200A, U+2028, U+2029, U+202F, U+205F, U+3000
  and U+FEFF, here in UTF-8.
\<close>

definition white_space :: "string list" where
  "white_space =
     [[CHR 0x09], [CHR 0x0A], [CHR 0x0B], [CHR 0x0C], [CHR 0x0D], [CHR 0x20],
      [CHR 0xC2, CHR 0xA0],
      [CHR 0xE1, CHR 0x9A, CHR 0x80],
      [CHR 0xE2, CHR 0x80, CHR 0x80], [CHR 0xE2, CHR 0x80, CHR 0x81], [CHR 0xE2, CHR 0x80, CHR 0x82],
      [CHR 0xE2, CHR 0x80, CHR 0x83], [CHR 0xE2, CHR 0x80, CHR 0x84], [CHR 0xE2, CHR 0x80, CHR 0x85],
      [CHR 0xE2, CHR 0x80, CHR 0x86], [CHR 0xE2, CHR 0x80, CHR 0x87], [CHR 0xE2, CHR 0x80, CHR 0x88],
      [CHR 0xE2, CHR 0x80, CHR 0x89], [CHR 0xE2, CHR 0x80, CHR 0x8A],
      [CHR 0xE2, CHR 0x80, CHR 0xA8], [CHR 0xE2, CHR 0x80, CHR 0xA9], [CHR 0xE2, CHR 0x80, CHR 0xAF],
      [CHR 0xE2, CHR 0x81, CHR 0x9F],
      [CHR 0xE3, CHR 0x80, CHR 0x80],
      [CHR 0xEF, CHR 0xBB, CHR 0xBF]]"

text \<open>\<open>strip ws s\<close> drops from the front of \<open>s\<close> every leading occurrence of a member of \<open>ws\<close>.\<close>

function strip :: "string list \<Rightarrow> string \<Rightarrow> string" where
  "strip ws s =
     (case find (\<lambda>w. w \<noteq> [] \<and> prefix w s) ws of
        None \<Rightarrow> s
      | Some w \<Rightarrow> strip ws (drop (length w) s))"
  by pat_completeness auto
termination
proof (relation "measure (\<lambda>(ws, s). length s)")
  show "wf (measure (\<lambda>(ws, s). length s))"
    by simp
next
  fix ws :: "string list" and s w :: string
  assume "find (\<lambda>w. w \<noteq> [] \<and> prefix w s) ws = Some w"
  then have "w \<noteq> []" and "prefix w s"
    by (auto simp add: find_Some_iff)
  then have "length s - length w < length s"
    by (cases w) (auto simp add: prefix_def)
  then show "((ws, drop (length w) s), (ws, s)) \<in> measure (\<lambda>(ws, s). length s)"
    by simp
qed

declare strip.simps [simp del]

definition trim :: "string \<Rightarrow> string" where
  "trim s = rev (strip (map rev white_space) (rev (strip white_space s)))"

text \<open>
  \<^verbatim>\<open>Date.now().toString()\<close>: the clock reading, a count of milliseconds, in decimal.
\<close>

definition digit :: "nat \<Rightarrow> char" where
  "digit d = ''0123456789'' ! d"

fun toString :: "nat \<Rightarrow> string" where
  "toString n = (if n < 10 then [digit n] else toString (n div 10) @ [digit (n mod 10)])"

declare toString.simps [simp del]

subsection \<open>Creating a folder\<close>

text \<open>
  \<^verbatim>\<open>handleCreateFolder\<close>; \<open>now\<close> is the reading of \<^verbatim>\<open>Date.now()\<close>.
\<close>

definition handleCreateFolder :: "nat \<Rightarrow> state \<Rightarrow> state" where
  "handleCreateFolder now st =
     (if trim (newFolderName st) = [] \<or> trim (newFolderPass st) = []
      then showToast ''Name and password required'' Error st
      else
        let newFolder = \<lparr>folder_id = toString now,
                         folder_name = newFolderName st,
                         password = newFolderPass st,
                         bookmarks = []\<rparr>
        in showToast ''Folder created successfully'' Success
             (st\<lparr>folders := folders st @ [newFolder],
                 newFolderName := [],
                 newFolderPass := [],
                 isAddFolderModalOpen := False\<rparr>))"

subsection \<open>Adding a bookmark\<close>

text \<open>
  The test \<^verbatim>\<open>/^https?:\/\//i\<close>. Without the \<^verbatim>\<open>u\<close> flag, ignoring case identifies a letter
  of ASCII with its other case and with nothing else.
\<close>

definition lower :: "char \<Rightarrow> char" where
  "lower c =
     (case map_of (zip ''ABCDEFGHIJKLMNOPQRSTUVWXYZ'' ''abcdefghijklmnopqrstuvwxyz'') c of
        Some l \<Rightarrow> l
      | None \<Rightarrow> c)"

definition has_scheme :: "string \<Rightarrow> bool" where
  "has_scheme u \<longleftrightarrow> prefix ''http://'' (map lower u) \<or> prefix ''https://'' (map lower u)"

text \<open>
  \<^verbatim>\<open>handleAddBookmark\<close>. \<open>URL_hostname u\<close> is \<^verbatim>\<open>new URL(u).hostname\<close>, which throws a
  \<^verbatim>\<open>TypeError\<close> when \<open>u\<close> is not a URL; nothing catches it, so the handler throws before any
  setter is called. \<open>now_img\<close> and \<open>iso_img\<close> are the clock readings taken for the image,
  \<open>now\<close> and \<open>isoNow\<close> those taken for the bookmark. A string or \<^verbatim>\<open>null\<close> is truthy when it is
  a string that is not empty.
\<close>

definition handleAddBookmark ::
  "(string \<Rightarrow> string outcome) \<Rightarrow> nat \<Rightarrow> string \<Rightarrow> nat \<Rightarrow> string \<Rightarrow> state \<Rightarrow> state outcome" where
  "handleAddBookmark URL_hostname now_img iso_img now isoNow st =
     (if trim (newBookmarkUrl st) = [] then Returns st
      else
        let url' = (if \<not> has_scheme (newBookmarkUrl st) then ''https://'' @ newBookmarkUrl st
                    else newBookmarkUrl st);
            initialMedia =
              (case newBookmarkImg st of
                 None \<Rightarrow> []
               | Some img \<Rightarrow>
                   if img = [] then []
                   else [\<lparr>media_id = toString now_img @ ''_img'', media_type = Image,
                           content = img, media_createdAt = iso_img\<rparr>])
        in case (if newBookmarkTitle st \<noteq> [] then Returns (newBookmarkTitle st)
                 else URL_hostname url') of
             Throws \<Rightarrow> Throws
           | Returns t \<Rightarrow>
               let newBookmark =
                     \<lparr>bookmark_id = toString now,
                      title = t,
                      url = url',
                      description = (if newBookmarkDesc st \<noteq> [] then newBookmarkDesc st
                                     else ''A mysterious link...''),
                      bookmark_createdAt = isoNow,
                      media = initialMedia\<rparr>;
                   updatedFolders =
                     map (\<lambda>f. if Some (folder_id f) = activeFolderId st
                              then f\<lparr>bookmarks := newBookmark # bookmarks f\<rparr>
                              else f)
                       (folders st)
               in Returns
                    (showToast ''Bookmark added'' Success
                       (st\<lparr>folders := updatedFolders,
                           newBookmarkUrl := [],
                           newBookmarkTitle := [],
                           newBookmarkDesc := [],
                           newBookmarkImg := None,
                           isAddBookmarkModalOpen := False\<rparr>)))"

subsection \<open>Media of the selected bookmark\<close>

text \<open>
  \<^verbatim>\<open>handleAddMedia\<close> and \<^verbatim>\<open>deleteMedia\<close> walk the store in the same way: in every folder whose
  ID is the active one, every bookmark whose ID is that of the selected bookmark is replaced
  by an updated copy, and \<^verbatim>\<open>setSelectedBookmark\<close> is called with each copy. \<open>map_selected\<close> is
  the store after the walk and \<open>selected_calls\<close> the arguments of those calls, in order; the
  last call decides the cell.

  A handler is a closure of the render that made it: \<^verbatim>\<open>folders\<close>, \<^verbatim>\<open>selectedBookmark\<close> and
  \<^verbatim>\<open>activeFolderId\<close> in its body are the cells of that render, and \<^verbatim>\<open>setFolders\<close> is given a
  store computed from them. A click runs the handler of the current render. A voice note and an
  uploaded image do not: the recorder calls the \<^verbatim>\<open>onSave\<close> it was given when the recording
  started, and the \<^verbatim>\<open>FileReader\<close> calls back into the render in which the file was chosen. So
  the walk takes two states, \<open>render\<close>, the state of the render whose handler runs, and \<open>st\<close>,
  the state the setters act on.
\<close>

definition map_selected ::
  "(bookmark \<Rightarrow> bookmark) \<Rightarrow> string \<Rightarrow> string \<Rightarrow> folder list \<Rightarrow> folder list" where
  "map_selected upd act sel fs =
     map (\<lambda>f. if folder_id f = act
              then f\<lparr>bookmarks := map (\<lambda>b. if bookmark_id b = sel then upd b else b) (bookmarks f)\<rparr>
              else f)
       fs"

definition selected_calls ::
  "(bookmark \<Rightarrow> bookmark) \<Rightarrow> string \<Rightarrow> string \<Rightarrow> folder list \<Rightarrow> bookmark list" where
  "selected_calls upd act sel fs =
     concat (map (\<lambda>f. if folder_id f = act
                      then map upd (filter (\<lambda>b. bookmark_id b = sel) (bookmarks f))
                      else [])
               fs)"

definition walk_selected ::
  "(bookmark \<Rightarrow> bookmark) \<Rightarrow> string \<Rightarrow> bookmark \<Rightarrow> state \<Rightarrow> state \<Rightarrow> state" where
  "walk_selected upd act sb render st =
     st\<lparr>folders := map_selected upd act (bookmark_id sb) (folders render),
        selectedBookmark :=
          (case selected_calls upd act (bookmark_id sb) (folders render) of
             [] \<Rightarrow> selectedBookmark st
           | c # cs \<Rightarrow> Some (last (c # cs)))\<rparr>"

definition type_name :: "media_type \<Rightarrow> string" where
  "type_name t = (case t of Image \<Rightarrow> ''image'' | Video \<Rightarrow> ''video'' | Voice \<Rightarrow> ''voice'')"

text \<open>
  \<^verbatim>\<open>handleAddMedia\<close>: \<open>now\<close> and \<open>isoNow\<close> are the two clock readings, taken when the handler
  runs. \<^verbatim>\<open>!activeFolderId\<close> holds of \<^verbatim>\<open>null\<close> and of the empty string.
\<close>

definition handleAddMedia ::
  "media_type \<Rightarrow> string \<Rightarrow> nat \<Rightarrow> string \<Rightarrow> state \<Rightarrow> state \<Rightarrow> state" where
  "handleAddMedia ty c now isoNow render st =
     (case (selectedBookmark render, activeFolderId render) of
        (Some sb, Some act) \<Rightarrow>
          if act = [] then st
          else
            let newMedia = \<lparr>media_id = toString now, media_type = ty,
                            content = c, media_createdAt = isoNow\<rparr>
            in showToast (type_name ty @ '' added'') Success
                 (walk_selected (\<lambda>b. b\<lparr>media := media b @ [newMedia]\<rparr>) act sb render st)
      | _ \<Rightarrow> st)"

text \<open>\<^verbatim>\<open>deleteMedia\<close> runs from a click, in the current render.\<close>

definition deleteMedia :: "string \<Rightarrow> state \<Rightarrow> state" where
  "deleteMedia mediaId st =
     (case (selectedBookmark st, activeFolderId st) of
        (Some sb, Some act) \<Rightarrow>
          if act = [] then st
          else walk_selected (\<lambda>b. b\<lparr>media := filter (\<lambda>m. media_id m \<noteq> mediaId) (media b)\<rparr>)
                 act sb st st
      | _ \<Rightarrow> st)"

subsection \<open>Unlocking and selecting a folder\<close>

text \<open>
  \<^verbatim>\<open>handleUnlock\<close>. \<^verbatim>\<open>folders.find\<close> returns the first folder with the ID; with
  \<^verbatim>\<open>folderToUnlock\<close> \<^verbatim>\<open>null\<close> it finds none. The guard \<^verbatim>\<open>if (folderToUnlock)\<close> before the
  \<^verbatim>\<open>add\<close> fails for the empty string.
\<close>

definition handleUnlock :: "state \<Rightarrow> state" where
  "handleUnlock st =
     (let folder = (case folderToUnlock st of
                      None \<Rightarrow> None
                    | Some i \<Rightarrow> find (\<lambda>f. folder_id f = i) (folders st))
      in case folder of
           None \<Rightarrow> showToast ''Incorrect password'' Error st
         | Some f \<Rightarrow>
             if password f = unlockInput st
             then
               let newUnlocked =
                     (case folderToUnlock st of
                        None \<Rightarrow> unlockedFolders st
                      | Some i \<Rightarrow> if i \<noteq> [] then insert i (unlockedFolders st)
                                  else unlockedFolders st)
               in st\<lparr>unlockedFolders := newUnlocked,
                     activeFolderId := folderToUnlock st,
                     isUnlockModalOpen := False,
                     unlockInput := []\<rparr>
             else showToast ''Incorrect password'' Error st)"

text \<open>\<^verbatim>\<open>selectFolder\<close>; \<open>innerWidth\<close> is \<^verbatim>\<open>window.innerWidth\<close>.\<close>

definition selectFolder :: "string \<Rightarrow> nat \<Rightarrow> state \<Rightarrow> state" where
  "selectFolder i innerWidth st =
     (if i \<in> unlockedFolders st
      then st\<lparr>activeFolderId := Some i,
              sidebarOpen := (if innerWidth < 768 then False else sidebarOpen st)\<rparr>
      else st\<lparr>folderToUnlock := Some i, isUnlockModalOpen := True\<rparr>)"

subsection \<open>Deleting a bookmark\<close>

text \<open>
  \<^verbatim>\<open>deleteBookmark\<close> and \<^verbatim>\<open>handleDeleteFromModal\<close>; \<open>confirmed\<close> is the answer of
  \<^verbatim>\<open>window.confirm\<close>. \<^verbatim>\<open>f.id === activeFolderId\<close> is false of every folder when no folder is
  active.
\<close>

definition deleteBookmark :: "string \<Rightarrow> bool \<Rightarrow> state \<Rightarrow> state" where
  "deleteBookmark bookmarkId confirmed st =
     (if \<not> confirmed then st
      else
        st\<lparr>folders :=
             map (\<lambda>f. if Some (folder_id f) = activeFolderId st
                      then f\<lparr>bookmarks := filter (\<lambda>b. bookmark_id b \<noteq> bookmarkId) (bookmarks f)\<rparr>
                      else f)
               (folders st)\<rparr>)"

definition handleDeleteFromModal :: "bool \<Rightarrow> state \<Rightarrow> state" where
  "handleDeleteFromModal confirmed st =
     (case (selectedBookmark st, activeFolderId st) of
        (Some sb, Some act) \<Rightarrow>
          if act = [] then st
          else if \<not> confirmed then st
          else
            showToast ''Bookmark deleted'' Success
              (st\<lparr>folders :=
                    map (\<lambda>f. if folder_id f = act
                             then f\<lparr>bookmarks :=
                                      filter (\<lambda>b. bookmark_id b \<noteq> bookmark_id sb) (bookmarks f)\<rparr>
                             else f)
                      (folders st),
                  isDetailModalOpen := False,
                  selectedBookmark := None\<rparr>)
      | _ \<Rightarrow> st)"

subsection \<open>Reading a value of type \<^verbatim>\<open>any\<close>\<close>

text \<open>
  An object is the list of its properties, each name once. \<open>get_named k v\<close> is \<^verbatim>\<open>v.k\<close> for a
  name \<open>k\<close> that no prototype defines (the names read here are \<^verbatim>\<open>candidates\<close>, \<^verbatim>\<open>content\<close>,
  \<^verbatim>\<open>parts\<close>, \<^verbatim>\<open>text\<close>, \<^verbatim>\<open>title\<close> and \<^verbatim>\<open>description\<close>): reading a property of \<^verbatim>\<open>null\<close> throws
  a \<^verbatim>\<open>TypeError\<close>, a primitive or an array has no such property. \<open>get_index0 v\<close> is
  \<^verbatim>\<open>v[0]\<close>; of a string that is its first character as a string, of which nothing but that it
  is a string is ever used. \<open>opt_chain get x\<close> is the optional chain \<^verbatim>\<open>x?.p\<close>, which is \<^verbatim>\<open>undefined\<close> when
  \<open>x\<close> is \<^verbatim>\<open>undefined\<close> or \<^verbatim>\<open>null\<close>.
\<close>

definition get_named :: "string \<Rightarrow> json \<Rightarrow> json option outcome" where
  "get_named k v =
     (case v of
        JNull \<Rightarrow> Throws
      | JObject kvs \<Rightarrow> Returns (map_of kvs k)
      | _ \<Rightarrow> Returns None)"

definition get_index0 :: "json \<Rightarrow> json option outcome" where
  "get_index0 v =
     (case v of
        JNull \<Rightarrow> Throws
      | JArray xs \<Rightarrow> Returns (case xs of [] \<Rightarrow> None | x # _ \<Rightarrow> Some x)
      | JString s \<Rightarrow> Returns (case s of [] \<Rightarrow> None | c # _ \<Rightarrow> Some (JString [c]))
      | JObject kvs \<Rightarrow> Returns (map_of kvs ''0'')
      | _ \<Rightarrow> Returns None)"

definition opt_chain :: "(json \<Rightarrow> json option outcome) \<Rightarrow> json option \<Rightarrow> json option outcome" where
  "opt_chain get x =
     (case x of
        None \<Rightarrow> Returns None
      | Some JNull \<Rightarrow> Returns None
      | Some v \<Rightarrow> get v)"

definition and_then :: "'a outcome \<Rightarrow> ('a \<Rightarrow> 'b outcome) \<Rightarrow> 'b outcome" where
  "and_then x f = (case x of Throws \<Rightarrow> Throws | Returns v \<Rightarrow> f v)"

fun truthy :: "json option \<Rightarrow> bool" where
  "truthy None = False"
| "truthy (Some JNull) = False"
| "truthy (Some (JBool b)) = b"
| "truthy (Some (JNumber n)) = (n \<noteq> 0)"
| "truthy (Some (JString s)) = (s \<noteq> [])"
| "truthy (Some (JArray xs)) = True"
| "truthy (Some (JObject kvs)) = True"

subsection \<open>Requests, responses and the calls of the asynchronous handlers\<close>

text \<open>
  A request as \<^verbatim>\<open>fetch\<close> is given it; the body is the payload that \<^verbatim>\<open>JSON.stringify\<close>
  serialises. A response has the \<^verbatim>\<open>ok\<close> flag, the status and the outcome of \<^verbatim>\<open>json()\<close>.
\<close>

record request =
  request_url :: string
  request_method :: string
  request_headers :: "(string \<times> string) list"
  request_body :: json

record response =
  ok :: bool
  status :: nat
  response_json :: "json outcome"

text \<open>
  The two asynchronous handlers are modelled by the calls they make, in order: the setters
  with their arguments, and the requests. An argument that comes out of a parsed reply is the
  value it is, whatever the setter declares.
\<close>

datatype effect =
    SetIsEnchanting bool
  | SetNewBookmarkTitle json
  | SetNewBookmarkDesc json
  | ShowToast string toast_type
  | Fetched request
  | SetOracleInput string
  | AppendOracleHistory chat_message
  | SetOracleThinking bool

text \<open>
  \<open>or_else x y\<close> is \<^verbatim>\<open>x || y\<close>, and \<open>when_truthy x setter\<close> is \<^verbatim>\<open>if (x) setter(x)\<close>.
\<close>

definition or_else :: "json option \<Rightarrow> json \<Rightarrow> json" where
  "or_else x y = (case x of None \<Rightarrow> y | Some v \<Rightarrow> if truthy (Some v) then v else y)"

definition when_truthy :: "json option \<Rightarrow> (json \<Rightarrow> effect) \<Rightarrow> effect list" where
  "when_truthy x setter = (case x of None \<Rightarrow> [] | Some v \<Rightarrow> if truthy (Some v) then [setter v] else [])"

subsection \<open>The AI gateway\<close>

text \<open>
  \<^verbatim>\<open>data.candidates?.[0]?.content?.parts?.[0]?.text\<close>
\<close>

definition candidate_text :: "json \<Rightarrow> json option outcome" where
  "candidate_text data =
     and_then (get_named ''candidates'' data) (\<lambda>v1.
     and_then (opt_chain get_index0 v1) (\<lambda>v2.
     and_then (opt_chain (get_named ''content'') v2) (\<lambda>v3.
     and_then (opt_chain (get_named ''parts'') v3) (\<lambda>v4.
     and_then (opt_chain get_index0 v4) (\<lambda>v5.
     opt_chain (get_named ''text'') v5)))))"

text \<open>
  \<^verbatim>\<open>callGemini\<close>. The key is a constant of the module (the empty string in the source, with
  the comment that the environment injects it), so it is a parameter; \<open>fetch\<close> is the network:
  \<open>Throws\<close> is a rejected promise. The result is the value the promise resolves to, with the
  requests that were issued. Everything that can throw stands inside the \<^verbatim>\<open>try\<close>, and the
  \<^verbatim>\<open>catch\<close> returns a string. The calls of \<^verbatim>\<open>console.error\<close> are left out.
\<close>

definition gemini_request :: "string \<Rightarrow> string \<Rightarrow> string \<Rightarrow> request" where
  "gemini_request apiKey prompt systemInstruction =
     \<lparr>request_url =
        ''https://generativelanguage.googleapis.com/v1beta/models/gemini-2.5-flash-preview-09-2025:generateContent?key=''
          @ apiKey,
      request_method = ''POST'',
      request_headers = [(''Content-Type'', ''application/json'')],
      request_body =
        JObject
          [(''contents'', JArray [JObject [(''parts'', JArray [JObject [(''text'', JString prompt)]])]]),
           (''systemInstruction'',
              JObject [(''parts'', JArray [JObject [(''text'', JString systemInstruction)]])])]\<rparr>"

definition severed :: json where
  "severed = JString ''The connection to the ether was severed. Please try again.''"

definition callGemini ::
  "string \<Rightarrow> (request \<Rightarrow> response outcome) \<Rightarrow> string \<Rightarrow> string \<Rightarrow> json \<times> request list" where
  "callGemini apiKey fetch prompt systemInstruction =
     (if apiKey = [] then (JString ''Error: API Key is missing.'', [])
      else
        let req = gemini_request apiKey prompt systemInstruction
        in (case fetch req of
              Throws \<Rightarrow> severed
            | Returns resp \<Rightarrow>
                if \<not> ok resp then severed
                else
                  (case response_json resp of
                     Throws \<Rightarrow> severed
                   | Returns data \<Rightarrow>
                       (case candidate_text data of
                          Throws \<Rightarrow> severed
                        | Returns t \<Rightarrow> or_else t (JString ''The spirits were silent...''))),
            [req]))"

text \<open>
  \<^verbatim>\<open>result.replace(/```json|```/g, '')\<close>: scanning from the left, every match of the longer
  alternative, or else of the shorter one, is dropped.
\<close>

fun strip_fences :: "string \<Rightarrow> string" where
  "strip_fences [] = []"
| "strip_fences (c # cs) =
     (if prefix ''```json'' (c # cs) then strip_fences (drop 7 (c # cs))
      else if prefix ''```'' (c # cs) then strip_fences (drop 3 (c # cs))
      else c # strip_fences cs)"

definition enchant_prompt :: "string \<Rightarrow> string" where
  "enchant_prompt u =
     ''I am adding a bookmark for this URL: '' @ [CHR 0x22] @ u @ [CHR 0x22] @
     ''. Please generate a concise, classy Title and a 1-sentence sophisticated description for it. Output format: JSON { ''
     @ [CHR 0x22] @ ''title'' @ [CHR 0x22] @ '': '' @ [CHR 0x22] @ ''string'' @ [CHR 0x22] @ '', ''
     @ [CHR 0x22] @ ''description'' @ [CHR 0x22] @ '': '' @ [CHR 0x22] @ ''string'' @ [CHR 0x22] @ '' }.''"

definition confused :: effect where
  "confused = ShowToast ''The spirits are confused. Try manual entry.'' Error"

text \<open>The sparkles of the toast, U+2728, in UTF-8.\<close>

definition illuminated :: effect where
  "illuminated =
     ShowToast ([CHR 0xE2, CHR 0x9C, CHR 0xA8] @ '' The link has been illuminated!'') Success"

text \<open>
  The body of the \<^verbatim>\<open>try\<close> of \<^verbatim>\<open>handleEnchant\<close> after the reply has arrived. A reply that is
  not a string has no \<^verbatim>\<open>replace\<close> to call, which throws; every throw ends in the \<^verbatim>\<open>catch\<close>.
\<close>

definition enchant_reply :: "(string \<Rightarrow> json outcome) \<Rightarrow> json \<Rightarrow> effect list" where
  "enchant_reply JSON_parse result =
     (case result of
        JString r \<Rightarrow>
          (case JSON_parse (strip_fences r) of
             Throws \<Rightarrow> [confused]
           | Returns parsed \<Rightarrow>
               (case get_named ''title'' parsed of
                  Throws \<Rightarrow> [confused]
                | Returns t \<Rightarrow>
                    when_truthy t SetNewBookmarkTitle @
                    (case get_named ''description'' parsed of
                       Throws \<Rightarrow> [confused]
                     | Returns d \<Rightarrow>
                         when_truthy d SetNewBookmarkDesc @ [illuminated])))
      | _ \<Rightarrow> [confused])"

definition handleEnchant ::
  "string \<Rightarrow> (request \<Rightarrow> response outcome) \<Rightarrow> (string \<Rightarrow> json outcome) \<Rightarrow> state \<Rightarrow> effect list" where
  "handleEnchant apiKey fetch JSON_parse st =
     (if newBookmarkUrl st = [] then [ShowToast ''Enter a URL first'' Error]
      else
        let (result, requests) =
              callGemini apiKey fetch (enchant_prompt (newBookmarkUrl st))
                ''You are a helpful digital archivist. Return ONLY raw JSON.''
        in [SetIsEnchanting True] @ map Fetched requests @ enchant_reply JSON_parse result @
           [SetIsEnchanting False])"

text \<open>
  \<^verbatim>\<open>handleOracleChat\<close>. \<open>JSON_stringify\<close> is the platform's serialiser. Nothing here can throw:
  \<^verbatim>\<open>callGemini\<close> resolves in every case.
\<close>

definition vaultContext :: "folder list \<Rightarrow> json" where
  "vaultContext fs =
     JArray (map (\<lambda>f. JObject
                    [(''folder'', JString (folder_name f)),
                     (''bookmarks'',
                        JArray (map (\<lambda>b. JObject [(''title'', JString (title b)),
                                                   (''url'', JString (url b)),
                                                   (''desc'', JString (description b))])
                                  (bookmarks f)))])
               fs)"

definition systemPrompt :: "string \<Rightarrow> string" where
  "systemPrompt context =
     ''You are The Oracle, a mystical and highly intelligent guardian of the user'' @ [CHR 0x27] @
     ''s digital library (VelvetVault). '' @ [CHR 0x0A] @
     ''    User'' @ [CHR 0x27] @ ''s Vault Content: '' @ context @ ''.'' @ [CHR 0x0A] @
     ''    '' @ [CHR 0x0A] @
     ''    Your personality: Sophisticated, slightly archaic but helpful, concise. '' @ [CHR 0x0A] @
     ''    '' @ [CHR 0x0A] @
     ''    Capabilities:'' @ [CHR 0x0A] @
     ''    1. Answer questions about what links the user has.'' @ [CHR 0x0A] @
     ''    2. Suggest connections between folders.'' @ [CHR 0x0A] @
     ''    3. Summarize the collection.'' @ [CHR 0x0A] @
     ''    '' @ [CHR 0x0A] @
     ''    If the user asks something unrelated to the bookmarks, politely steer them back to the archive or answer briefly with wisdom.''"

definition handleOracleChat ::
  "string \<Rightarrow> (request \<Rightarrow> response outcome) \<Rightarrow> (json \<Rightarrow> string) \<Rightarrow> state \<Rightarrow> effect list" where
  "handleOracleChat apiKey fetch JSON_stringify st =
     (if trim (oracleInput st) = [] then []
      else
        let userMsg = oracleInput st;
            (response, requests) =
              callGemini apiKey fetch userMsg (systemPrompt (JSON_stringify (vaultContext (folders st))))
        in [SetOracleInput [],
            AppendOracleHistory \<lparr>role = User, chat_text = JString userMsg\<rparr>,
            SetOracleThinking True] @
           map Fetched requests @
           [AppendOracleHistory \<lparr>role = Model, chat_text = response\<rparr>,
            SetOracleThinking False])"

subsection \<open>The persistent store\<close>

text \<open>
  The initialiser of the \<^verbatim>\<open>folders\<close> cell. \<open>getItem\<close> is the outcome of
  \<^verbatim>\<open>localStorage.getItem('velvet_vault_data_v3')\<close>, with \<open>None\<close> for \<^verbatim>\<open>null\<close>, and \<open>JSON_parse\<close>
  is the platform's parser, which throws a \<^verbatim>\<open>SyntaxError\<close> on a text that is not JSON. The
  cell is declared \<^verbatim>\<open>Folder[]\<close>, and the two literals of the initialiser are of that type; what
  the parser returns is of type \<^verbatim>\<open>any\<close> and is taken as it is.
\<close>

datatype loaded = Folders "folder list" | Unchecked json

definition default_folder :: folder where
  "default_folder =
     \<lparr>folder_id = ''default'', folder_name = ''Inspiration'', password = ''123'', bookmarks = []\<rparr>"

definition load :: "string option outcome \<Rightarrow> (string \<Rightarrow> json outcome) \<Rightarrow> loaded" where
  "load getItem JSON_parse =
     (case getItem of
        Throws \<Rightarrow> Folders []
      | Returns saved \<Rightarrow>
          (case saved of
             None \<Rightarrow> Folders [default_folder]
           | Some text \<Rightarrow>
               if text = [] then Folders [default_folder]
               else (case JSON_parse text of
                       Throws \<Rightarrow> Folders []
                     | Returns v \<Rightarrow> Unchecked v)))"

subsection \<open>Uploads and video links\<close>

text \<open>
  \<^verbatim>\<open>s.includes(p)\<close>, and \<^verbatim>\<open>s.replace(p, r)\<close> for a string \<open>p\<close> and an \<open>r\<close> without \<^verbatim>\<open>$\<close>: the
  first occurrence is replaced.
\<close>

fun includes_str :: "string \<Rightarrow> string \<Rightarrow> bool" where
  "includes_str [] p = (p = [])"
| "includes_str (c # cs) p = (prefix p (c # cs) \<or> includes_str cs p)"

fun replace_first :: "string \<Rightarrow> string \<Rightarrow> string \<Rightarrow> string" where
  "replace_first p r [] = (if p = [] then r else [])"
| "replace_first p r (c # cs) =
     (if prefix p (c # cs) then r @ drop (length p) (c # cs) else c # replace_first p r cs)"

definition handleAddVideoLink :: "nat \<Rightarrow> string \<Rightarrow> state \<Rightarrow> state" where
  "handleAddVideoLink now isoNow st =
     (if videoUrlInput st = [] then st
      else
        let v = videoUrlInput st;
            embedUrl =
              (if includes_str v ''youtube.com/watch?v='' then replace_first ''watch?v='' ''embed/'' v
               else if includes_str v ''youtu.be/'' then replace_first ''youtu.be/'' ''youtube.com/embed/'' v
               else v)
        in (handleAddMedia Video embedUrl now isoNow st st)\<lparr>videoUrlInput := []\<rparr>)"

text \<open>
  The file of an upload: its size, and what the \<^verbatim>\<open>FileReader\<close> ends with when that is a
  string. \<^verbatim>\<open>handleImageUpload\<close> is taken with the callback of its reader: \<open>render\<close> is the state
  of the render in which the file was chosen, whose \<^verbatim>\<open>handleAddMedia\<close> the callback calls, and
  \<open>st\<close> the state when the reader ends. \<^verbatim>\<open>handleCreationImageUpload\<close> calls a setter with the
  data and reads no cell.
\<close>

record upload =
  file_size :: nat
  file_dataURL :: "string option"

definition handleImageUpload ::
  "upload option \<Rightarrow> nat \<Rightarrow> string \<Rightarrow> state \<Rightarrow> state \<Rightarrow> state" where
  "handleImageUpload upload now isoNow render st =
     (case upload of
        None \<Rightarrow> st
      | Some f \<Rightarrow>
          if file_size f > 500000 then showToast ''Image too large. Max 500KB.'' Error st
          else (case file_dataURL f of
                  None \<Rightarrow> st
                | Some d \<Rightarrow> handleAddMedia Image d now isoNow render st))"

definition handleCreationImageUpload :: "upload option \<Rightarrow> state \<Rightarrow> state" where
  "handleCreationImageUpload upload st =
     (case upload of
        None \<Rightarrow> st
      | Some f \<Rightarrow>
          if file_size f > 500000 then showToast ''Image too large. Max 500KB.'' Error st
          else (case file_dataURL f of
                  None \<Rightarrow> st
                | Some d \<Rightarrow> st\<lparr>newBookmarkImg := Some d\<rparr>))"

subsection \<open>A session\<close>

text \<open>
  Everything that changes the state of the component: the handlers above, the arrow functions
  written in the markup, the timer that clears the toast, the warning of the effect that
  saves the store, and the setter calls with which the two asynchronous handlers land
  (\<open>Toast\<close>, \<open>TypeNewBookmarkTitle\<close>, \<open>TypeNewBookmarkDesc\<close>, \<open>TypeOracleInput\<close>, \<open>Enchanting\<close>,
  \<open>OracleAppend\<close>, \<open>OracleThinking\<close>). The recorder keeps a state of its own and reaches this
  one through its \<^verbatim>\<open>onSave\<close> only, which is \<open>SaveRecording\<close>. A handler that throws has called
  no setter. The two events that run the handler of an earlier render, \<open>SaveRecording\<close> and
  \<open>ImageUpload\<close>, carry the state of that render; every other event runs in the current one.
\<close>

datatype event =
    CreateFolder nat
  | AddBookmark "string \<Rightarrow> string outcome" nat string nat string
  | SaveRecording state string nat string
  | ImageUpload state "upload option" nat string
  | CreationImageUpload "upload option"
  | AddVideoLink nat string
  | DeleteMedia string
  | Unlock
  | SelectFolder string nat
  | DeleteBookmark string bool
  | DeleteFromModal bool
  | OpenAddFolder nat
  | OpenOracle nat
  | OpenAddBookmark
  | OpenDetail bookmark
  | CloseSidebar
  | ToggleSidebar
  | CloseAddFolder
  | CloseUnlock
  | CloseAddBookmark
  | CloseDetail
  | CloseOracle
  | TypeNewFolderName string
  | TypeNewFolderPass string
  | TypeUnlockInput string
  | TypeNewBookmarkUrl string
  | TypeNewBookmarkTitle string
  | TypeNewBookmarkDesc string
  | TypeVideoUrl string
  | TypeOracleInput string
  | RemoveNewBookmarkImg
  | Toast "toast_state option"
  | Enchanting bool
  | OracleAppend chat_message
  | OracleThinking bool

fun step :: "event \<Rightarrow> state \<Rightarrow> state" where
  "step (CreateFolder now) st = handleCreateFolder now st"
| "step (AddBookmark URL_hostname now_img iso_img now isoNow) st =
     (case handleAddBookmark URL_hostname now_img iso_img now isoNow st of
        Throws \<Rightarrow> st
      | Returns st' \<Rightarrow> st')"
| "step (SaveRecording render c now isoNow) st = handleAddMedia Voice c now isoNow render st"
| "step (ImageUpload render upload now isoNow) st = handleImageUpload upload now isoNow render st"
| "step (CreationImageUpload upload) st = handleCreationImageUpload upload st"
| "step (AddVideoLink now isoNow) st = handleAddVideoLink now isoNow st"
| "step (DeleteMedia mediaId) st = deleteMedia mediaId st"
| "step Unlock st = handleUnlock st"
| "step (SelectFolder i innerWidth) st = selectFolder i innerWidth st"
| "step (DeleteBookmark bookmarkId confirmed) st = deleteBookmark bookmarkId confirmed st"
| "step (DeleteFromModal confirmed) st = handleDeleteFromModal confirmed st"
| "step (OpenAddFolder innerWidth) st =
     st\<lparr>isAddFolderModalOpen := True,
        sidebarOpen := (if innerWidth < 768 then False else sidebarOpen st)\<rparr>"
| "step (OpenOracle innerWidth) st =
     st\<lparr>isOracleOpen := True,
        sidebarOpen := (if innerWidth < 768 then False else sidebarOpen st)\<rparr>"
| "step OpenAddBookmark st = st\<lparr>isAddBookmarkModalOpen := True\<rparr>"
| "step (OpenDetail b) st = st\<lparr>selectedBookmark := Some b, isDetailModalOpen := True\<rparr>"
| "step CloseSidebar st = st\<lparr>sidebarOpen := False\<rparr>"
| "step ToggleSidebar st = st\<lparr>sidebarOpen := \<not> sidebarOpen st\<rparr>"
| "step CloseAddFolder st = st\<lparr>isAddFolderModalOpen := False\<rparr>"
| "step CloseUnlock st = st\<lparr>isUnlockModalOpen := False\<rparr>"
| "step CloseAddBookmark st = st\<lparr>isAddBookmarkModalOpen := False\<rparr>"
| "step CloseDetail st = st\<lparr>isDetailModalOpen := False\<rparr>"
| "step CloseOracle st = st\<lparr>isOracleOpen := False\<rparr>"
| "step (TypeNewFolderName v) st = st\<lparr>newFolderName := v\<rparr>"
| "step (TypeNewFolderPass v) st = st\<lparr>newFolderPass := v\<rparr>"
| "step (TypeUnlockInput v) st = st\<lparr>unlockInput := v\<rparr>"
| "step (TypeNewBookmarkUrl v) st = st\<lparr>newBookmarkUrl := v\<rparr>"
| "step (TypeNewBookmarkTitle v) st = st\<lparr>newBookmarkTitle := v\<rparr>"
| "step (TypeNewBookmarkDesc v) st = st\<lparr>newBookmarkDesc := v\<rparr>"
| "step (TypeVideoUrl v) st = st\<lparr>videoUrlInput := v\<rparr>"
| "step (TypeOracleInput v) st = st\<lparr>oracleInput := v\<rparr>"
| "step RemoveNewBookmarkImg st = st\<lparr>newBookmarkImg := None\<rparr>"
| "step (Toast t) st = st\<lparr>toast := t\<rparr>"
| "step (Enchanting b) st = st\<lparr>isEnchanting := b\<rparr>"
| "step (OracleAppend m) st = st\<lparr>oracleHistory := oracleHistory st @ [m]\<rparr>"
| "step (OracleThinking b) st = st\<lparr>isOracleThinking := b\<rparr>"

definition run :: "event list \<Rightarrow> state \<Rightarrow> state" where
  "run evs st = fold step evs st"

text \<open>
  The render an event carries is one the session has been in: \<open>closures_ok past evs st\<close> holds
  of the events \<open>evs\<close> that start in \<open>st\<close> after the states \<open>past\<close>.
\<close>

fun carried :: "event \<Rightarrow> state option" where
  "carried (SaveRecording render c now isoNow) = Some render"
| "carried (ImageUpload render upload now isoNow) = Some render"
| "carried ev = None"

fun closures_ok :: "state list \<Rightarrow> event list \<Rightarrow> state \<Rightarrow> bool" where
  "closures_ok past [] st = True"
| "closures_ok past (ev # evs) st =
     ((case carried ev of None \<Rightarrow> True | Some render \<Rightarrow> render \<in> set (st # past)) \<and>
      closures_ok (st # past) evs (step ev st))"

text \<open>No folder of the store has the empty string as its ID.\<close>

definition ids_ok :: "state \<Rightarrow> bool" where
  "ids_ok st \<longleftrightarrow> [] \<notin> folder_id ` set (folders st)"


subsection \<open>A sample store\<close>

text \<open>
  Two folders: the default one with two bookmarks, the first of which has one voice note, and
  a second one with one bookmark. In \<open>sample\<close> the default folder is unlocked and active and
  its first bookmark is selected.
\<close>

definition note1 :: media_item where
  "note1 = \<lparr>media_id = ''1700000000300'', media_type = Voice,
            content = ''data:audio/webm;base64,AAAA'', media_createdAt = ''2023-11-14T22:13:20.300Z''\<rparr>"

definition link1 :: bookmark where
  "link1 = \<lparr>bookmark_id = ''1700000000100'', title = ''example.org'', url = ''https://example.org'',
            description = ''A mysterious link...'', bookmark_createdAt = ''2023-11-14T22:13:20.100Z'',
            media = [note1]\<rparr>"

definition link2 :: bookmark where
  "link2 = \<lparr>bookmark_id = ''1700000000200'', title = ''Docs'', url = ''http://docs.example.org/a'',
            description = ''Reference'', bookmark_createdAt = ''2023-11-14T22:13:20.200Z'',
            media = []\<rparr>"

definition link3 :: bookmark where
  "link3 = \<lparr>bookmark_id = ''1700000000500'', title = ''News'', url = ''https://news.example.org'',
            description = ''Daily'', bookmark_createdAt = ''2023-11-14T22:13:20.500Z'',
            media = []\<rparr>"

definition work :: folder where
  "work = \<lparr>folder_id = ''1700000000400'', folder_name = ''Work'', password = ''s3cret'',
           bookmarks = [link3]\<rparr>"

definition sample :: state where
  "sample =
     (init [default_folder\<lparr>bookmarks := [link1, link2]\<rparr>, work])
       \<lparr>unlockedFolders := {''default''},
        activeFolderId := Some ''default'',
        selectedBookmark := Some link1\<rparr>"

text \<open>
  A reply of the model as it usually comes, the object inside a Markdown fence, and the
  platform at the texts of the example: \<^verbatim>\<open>JSON.parse\<close> rejects the fenced text and reads the
  object out of the text between the fences; \<^verbatim>\<open>fetch\<close> answers with the reply as the text of
  the first candidate.
\<close>

definition fenced_reply :: string where
  "fenced_reply =
     ''```json'' @ [CHR 0x0A] @
     ''{'' @ [CHR 0x22] @ ''title'' @ [CHR 0x22] @ '': '' @ [CHR 0x22] @ ''Example Domain'' @ [CHR 0x22] @ ''}'' @
     [CHR 0x0A] @ ''```''"

definition sample_parse :: "string \<Rightarrow> json outcome" where
  "sample_parse t =
     (if t = [CHR 0x0A] @ ''{'' @ [CHR 0x22] @ ''title'' @ [CHR 0x22] @ '': '' @ [CHR 0x22] @
              ''Example Domain'' @ [CHR 0x22] @ ''}'' @ [CHR 0x0A]
      then Returns (JObject [(''title'', JString ''Example Domain'')])
      else if t = ''[]'' then Returns (JArray [])
      else if t = ''42'' then Returns (JNumber 42)
      else Throws)"

definition sample_fetch :: "request \<Rightarrow> response outcome" where
  "sample_fetch req =
     Returns
       \<lparr>ok = True, status = 200,
        response_json =
          Returns (JObject
            [(''candidates'',
                JArray [JObject
                  [(''content'',
                      JObject [(''parts'', JArray [JObject [(''text'', JString fenced_reply)]])])]])])\<rparr>"

text \<open>
  \<open>sample\<close> after a video link has been added to the selected bookmark from the detail dialog.
\<close>

definition with_video :: state where
  "with_video =
     handleAddVideoLink 1700000000600 ''2023-11-14T22:13:20.600Z''
       (sample\<lparr>videoUrlInput := ''https://youtu.be/dQw4w9WgXcQ''\<rparr>)"

definition video1 :: media_item where
  "video1 = \<lparr>media_id = ''1700000000600'', media_type = Video,
             content = ''https://youtube.com/embed/dQw4w9WgXcQ'',
             media_createdAt = ''2023-11-14T22:13:20.600Z''\<rparr>"

lemmas sample_defs =
  sample_def init_def default_folder_def work_def link1_def link2_def link3_def note1_def

section \<open>Properties\<close>

subsection \<open>Creating a folder\<close>

text \<open>
  C6. Creating a folder: if the name or the password is empty after trimming white space, the
  store is unchanged and an error toast is shown; otherwise a new folder with that name, that
  password and no bookmarks is appended at the end of the store.
\<close>

theorem handleCreateFolder_spec:
  "(trim (newFolderName st) = [] \<or> trim (newFolderPass st) = [] \<longrightarrow>
      folders (handleCreateFolder now st) = folders st \<and>
      toast (handleCreateFolder now st) = Some \<lparr>msg = ''Name and password required'', type = Error\<rparr>) \<and>
   (trim (newFolderName st) \<noteq> [] \<and> trim (newFolderPass st) \<noteq> [] \<longrightarrow>
      folders (handleCreateFolder now st) =
        folders st @ [\<lparr>folder_id = toString now, folder_name = newFolderName st,
                        password = newFolderPass st, bookmarks = []\<rparr>])"
  by (simp add: handleCreateFolder_def showToast_def Let_def)

theorem handleCreateFolder_spec_witness:
  "trim ''Work'' \<noteq> [] \<and> trim ''pw'' \<noteq> [] \<and>
   folders (handleCreateFolder 1700000000400
              ((init [default_folder])\<lparr>newFolderName := ''Work'', newFolderPass := ''pw''\<rparr>)) =
     [default_folder,
      \<lparr>folder_id = ''1700000000400'', folder_name = ''Work'', password = ''pw'', bookmarks = []\<rparr>] \<and>
   trim '' '' = [] \<and>
   folders (handleCreateFolder 1700000000400
              ((init [default_folder])\<lparr>newFolderName := '' '', newFolderPass := ''pw''\<rparr>)) =
     [default_folder] \<and>
   toast (handleCreateFolder 1700000000400
            ((init [default_folder])\<lparr>newFolderName := '' '', newFolderPass := ''pw''\<rparr>)) =
     Some \<lparr>msg = ''Name and password required'', type = Error\<rparr>"
  using handleCreateFolder_spec
          [of "(init [default_folder])\<lparr>newFolderName := ''Work'', newFolderPass := ''pw''\<rparr>" 1700000000400]
        handleCreateFolder_spec
          [of "(init [default_folder])\<lparr>newFolderName := '' '', newFolderPass := ''pw''\<rparr>" 1700000000400]
  by (simp add: init_def trim_def white_space_def strip.simps toString.simps digit_def)

subsection \<open>Deleting a bookmark\<close>

lemma deleteBookmark_cancel:
  "deleteBookmark bid False st = st"
  by (simp add: deleteBookmark_def)

lemma deleteBookmark_length:
  "length (folders (deleteBookmark bid c st)) = length (folders st)"
  by (simp add: deleteBookmark_def)

lemma deleteBookmark_nth:
  "i < length (folders st) \<Longrightarrow>
   folders (deleteBookmark bid True st) ! i =
     (if Some (folder_id (folders st ! i)) = activeFolderId st
      then (folders st ! i)\<lparr>bookmarks := filter (\<lambda>b. bookmark_id b \<noteq> bid) (bookmarks (folders st ! i))\<rparr>
      else folders st ! i)"
  by (simp add: deleteBookmark_def)

lemma deleteBookmark_gone:
  "f \<in> set (folders (deleteBookmark bid True st)) \<Longrightarrow> Some (folder_id f) = activeFolderId st \<Longrightarrow>
   bid \<notin> bookmark_id ` set (bookmarks f)"
  by (auto simp add: deleteBookmark_def split: if_splits)

lemma deleteBookmark_cells:
  "deleteBookmark bid c st = st\<lparr>folders := folders (deleteBookmark bid c st)\<rparr>"
  by (simp add: deleteBookmark_def)

lemma deleteBookmark_idem:
  "deleteBookmark bid True (deleteBookmark bid True st) = deleteBookmark bid True st"
  by (simp add: deleteBookmark_def comp_def cong: if_cong)

lemma deleteBookmark_absent:
  "\<forall>f\<in>set (folders st). Some (folder_id f) = activeFolderId st \<longrightarrow>
      (\<forall>b\<in>set (bookmarks f). bookmark_id b \<noteq> bid) \<Longrightarrow>
   deleteBookmark bid True st = st"
  by (simp add: deleteBookmark_def map_idI)

lemma handleDeleteFromModal_folders:
  "selectedBookmark st = Some sb \<Longrightarrow> activeFolderId st = Some act \<Longrightarrow> act \<noteq> [] \<Longrightarrow>
   folders (handleDeleteFromModal c st) = folders (deleteBookmark (bookmark_id sb) c st)"
  by (simp add: handleDeleteFromModal_def deleteBookmark_def showToast_def)

text \<open>
  C5. Deleting a bookmark changes nothing when the confirmation is declined. Once confirmed, it
  keeps the folders in place; a folder whose ID is not the active one is unchanged, and a
  folder whose ID is the active one keeps its other fields and, in their order, exactly the
  bookmarks whose ID is not the deleted one. No other cell of the state changes. Deleting again
  changes nothing, and deleting an ID that the active folder does not hold changes nothing. The
  button of the detail dialog deletes the selected bookmark from the store in the same way.
\<close>

theorem deleteBookmark_spec:
  "deleteBookmark bid False st = st \<and>
   length (folders (deleteBookmark bid True st)) = length (folders st) \<and>
   (\<forall>i<length (folders st).
      folders (deleteBookmark bid True st) ! i =
        (if Some (folder_id (folders st ! i)) = activeFolderId st
         then (folders st ! i)\<lparr>bookmarks :=
                 filter (\<lambda>b. bookmark_id b \<noteq> bid) (bookmarks (folders st ! i))\<rparr>
         else folders st ! i)) \<and>
   (\<forall>f\<in>set (folders (deleteBookmark bid True st)).
      Some (folder_id f) = activeFolderId st \<longrightarrow> bid \<notin> bookmark_id ` set (bookmarks f)) \<and>
   deleteBookmark bid True st = st\<lparr>folders := folders (deleteBookmark bid True st)\<rparr> \<and>
   deleteBookmark bid True (deleteBookmark bid True st) = deleteBookmark bid True st \<and>
   ((\<forall>f\<in>set (folders st). Some (folder_id f) = activeFolderId st \<longrightarrow>
        (\<forall>b\<in>set (bookmarks f). bookmark_id b \<noteq> bid)) \<longrightarrow>
    deleteBookmark bid True st = st) \<and>
   (selectedBookmark st = Some sb \<and> activeFolderId st = Some act \<and> act \<noteq> [] \<longrightarrow>
    folders (handleDeleteFromModal True st) = folders (deleteBookmark (bookmark_id sb) True st))"
  using deleteBookmark_cancel [of bid st]
    deleteBookmark_length [of bid True st] deleteBookmark_nth [of _ st bid]
    deleteBookmark_gone [of _ bid st] deleteBookmark_cells [of bid True st]
    deleteBookmark_idem [of bid st] deleteBookmark_absent [of st bid]
    handleDeleteFromModal_folders [of st sb act True]
  by blast

theorem deleteBookmark_spec_witness:
  "folders sample = [default_folder\<lparr>bookmarks := [link1, link2]\<rparr>, work] \<and>
   activeFolderId sample = Some ''default'' \<and>
   selectedBookmark sample = Some link1 \<and>
   folders (deleteBookmark ''1700000000100'' True sample) = [default_folder\<lparr>bookmarks := [link2]\<rparr>, work] \<and>
   folders (deleteBookmark ''1700000000100'' True (deleteBookmark ''1700000000100'' True sample)) =
     [default_folder\<lparr>bookmarks := [link2]\<rparr>, work] \<and>
   deleteBookmark ''1700000000500'' True sample = sample \<and>
   folders (handleDeleteFromModal True sample) = [default_folder\<lparr>bookmarks := [link2]\<rparr>, work]"
proof -
  have store: "folders (deleteBookmark ''1700000000100'' True sample) =
      [default_folder\<lparr>bookmarks := [link2]\<rparr>, work]"
    by (simp add: deleteBookmark_def sample_defs)
  have absent: "\<forall>f\<in>set (folders sample). Some (folder_id f) = activeFolderId sample \<longrightarrow>
      (\<forall>b\<in>set (bookmarks f). bookmark_id b \<noteq> ''1700000000500'')"
    by (simp add: sample_defs)
  have cells: "folders sample = [default_folder\<lparr>bookmarks := [link1, link2]\<rparr>, work] \<and>
      activeFolderId sample = Some ''default'' \<and> selectedBookmark sample = Some link1"
    by (simp add: sample_defs)
  have guard: "selectedBookmark sample = Some link1 \<and> activeFolderId sample = Some ''default'' \<and>
      ''default'' \<noteq> []"
    by (simp add: sample_defs)
  have id1: "bookmark_id link1 = ''1700000000100''"
    by (simp add: link1_def)
  note first = deleteBookmark_spec [of "''1700000000100''" sample link1 "''default''"]
  note other = deleteBookmark_spec [of "''1700000000500''" sample link1 "''default''"]
  have idem: "deleteBookmark ''1700000000100'' True (deleteBookmark ''1700000000100'' True sample) =
      deleteBookmark ''1700000000100'' True sample"
    using first by (elim conjE)
  have noop: "deleteBookmark ''1700000000500'' True sample = sample"
    using other absent by (elim conjE) (erule mp)
  have modal: "folders (handleDeleteFromModal True sample) =
      folders (deleteBookmark (bookmark_id link1) True sample)"
    using first guard by (elim conjE) (erule mp, intro conjI)
  show ?thesis
    using cells store idem noop modal id1 by simp
qed

subsection \<open>Media of the selected bookmark\<close>








lemma selected_calls_id:
  "(\<And>b. bookmark_id (upd b) = bookmark_id b) \<Longrightarrow> c \<in> set (selected_calls upd act sel fs) \<Longrightarrow>
   bookmark_id c = sel"
  by (auto simp add: selected_calls_def split: if_splits)

lemma walk_selected_sel:
  assumes "\<And>b. bookmark_id (upd b) = bookmark_id b" and "selectedBookmark st = Some sb"
  shows "\<exists>sb'. selectedBookmark (walk_selected upd act sb render st) = Some sb' \<and>
    bookmark_id sb' = bookmark_id sb"
proof (cases "selected_calls upd act (bookmark_id sb) (folders render)")
  case Nil
  then show ?thesis using assms(2) by (simp add: walk_selected_def)
next
  case (Cons c cs)
  have "last (c # cs) \<in> set (selected_calls upd act (bookmark_id sb) (folders render))"
    unfolding Cons by (rule last_in_set) simp
  then have "bookmark_id (last (c # cs)) = bookmark_id sb"
    using assms(1) by (rule selected_calls_id [rotated])
  then show ?thesis using Cons by (simp add: walk_selected_def)
qed

lemma handleAddMedia_same_cells:
  "folders render = folders st \<Longrightarrow> selectedBookmark render = selectedBookmark st \<Longrightarrow>
   activeFolderId render = activeFolderId st \<Longrightarrow>
   handleAddMedia ty c now isoNow render st = handleAddMedia ty c now isoNow st st"
  by (simp add: handleAddMedia_def walk_selected_def Let_def split: option.splits)

lemma map_selected_twice:
  "(\<And>b. bookmark_id (f b) = bookmark_id b) \<Longrightarrow>
   map_selected g act sel (map_selected f act sel fs) = map_selected (\<lambda>b. g (f b)) act sel fs"
  by (simp add: map_selected_def comp_def cong: if_cong)

lemma map_selected_same:
  assumes "\<forall>f\<in>set fs. folder_id f = act \<longrightarrow>
     (\<forall>b\<in>set (bookmarks f). bookmark_id b = sel \<longrightarrow> upd b = b)"
  shows "map_selected upd act sel fs = fs"
  unfolding map_selected_def
proof (rule map_idI)
  fix f
  assume f: "f \<in> set fs"
  show "(if folder_id f = act
         then f\<lparr>bookmarks := map (\<lambda>b. if bookmark_id b = sel then upd b else b) (bookmarks f)\<rparr>
         else f) = f"
  proof (cases "folder_id f = act")
    case True
    have "map (\<lambda>b. if bookmark_id b = sel then upd b else b) (bookmarks f) = bookmarks f"
      using assms f True by (intro map_idI) auto
    then show ?thesis by simp
  next
    case False
    then show ?thesis by simp
  qed
qed

text \<open>
  C4. Adding a media item to the selected bookmark and then deleting it by its ID returns the
  store, and with it every media sequence, to what it was, provided that no media item of a
  bookmark the two handlers reach already carries the ID of the new item, and that the store,
  the selected bookmark and the active folder are, when the add runs, what they were in the
  render whose handler runs. The ID is the clock reading in milliseconds, and deleting removes
  every item with the ID. A video link is added by the handler of the current render.
\<close>

theorem add_then_delete_media:
  assumes sel: "selectedBookmark render = Some sb"
    and act: "activeFolderId render = Some act"
    and same: "folders render = folders st" "selectedBookmark render = selectedBookmark st"
      "activeFolderId render = activeFolderId st"
    and fresh: "\<forall>f\<in>set (folders st). folder_id f = act \<longrightarrow>
        (\<forall>b\<in>set (bookmarks f). bookmark_id b = bookmark_id sb \<longrightarrow>
          (\<forall>m\<in>set (media b). media_id m \<noteq> toString now))"
  shows "folders (deleteMedia (toString now) (handleAddMedia ty c now isoNow render st)) = folders st"
proof (cases "act = []")
  case True
  then show ?thesis using sel act same by (simp add: handleAddMedia_def deleteMedia_def)
next
  case False
  define new :: media_item
    where "new = \<lparr>media_id = toString now, media_type = ty, content = c, media_createdAt = isoNow\<rparr>"
  define add :: "bookmark \<Rightarrow> bookmark"
    where "add = (\<lambda>b. b\<lparr>media := media b @ [new]\<rparr>)"
  define del :: "bookmark \<Rightarrow> bookmark"
    where "del = (\<lambda>b. b\<lparr>media := filter (\<lambda>m. media_id m \<noteq> toString now) (media b)\<rparr>)"
  have sel': "selectedBookmark st = Some sb" and act': "activeFolderId st = Some act"
    using sel act same by simp_all
  have add_id: "\<And>b. bookmark_id (add b) = bookmark_id b" by (simp add: add_def)
  obtain sb' where sb': "selectedBookmark (walk_selected add act sb st st) = Some sb'"
      "bookmark_id sb' = bookmark_id sb"
    using walk_selected_sel [of add st sb act st] add_id sel' by blast
  let ?st1 = "handleAddMedia ty c now isoNow render st"
  have "?st1 = handleAddMedia ty c now isoNow st st"
    using same by (rule handleAddMedia_same_cells)
  then have st1: "?st1 = showToast (type_name ty @ '' added'') Success (walk_selected add act sb st st)"
    using sel' act' False by (simp add: handleAddMedia_def add_def new_def)
  have sel1: "selectedBookmark ?st1 = Some sb'" and act1: "activeFolderId ?st1 = Some act"
    and fs1: "folders ?st1 = map_selected add act (bookmark_id sb) (folders st)"
    using sb' act' by (simp_all add: st1 showToast_def walk_selected_def)
  have "folders (deleteMedia (toString now) ?st1) = map_selected del act (bookmark_id sb') (folders ?st1)"
    using sel1 act1 False by (simp add: deleteMedia_def walk_selected_def del_def)
  also have "\<dots> = map_selected (\<lambda>b. del (add b)) act (bookmark_id sb) (folders st)"
    using add_id by (simp add: fs1 sb' map_selected_twice)
  also have "\<dots> = folders st"
  proof (rule map_selected_same, intro ballI impI)
    fix f b
    assume "f \<in> set (folders st)" "folder_id f = act" "b \<in> set (bookmarks f)"
      "bookmark_id b = bookmark_id sb"
    then have "\<forall>m\<in>set (media b). media_id m \<noteq> toString now" using fresh by blast
    then show "del (add b) = b" by (simp add: del_def add_def new_def)
  qed
  finally show ?thesis .
qed

lemma with_video_store:
  "folders with_video = [default_folder\<lparr>bookmarks := [link1\<lparr>media := [note1, video1]\<rparr>, link2]\<rparr>, work] \<and>
   selectedBookmark with_video = Some (link1\<lparr>media := [note1, video1]\<rparr>) \<and>
   activeFolderId with_video = Some ''default''"
proof -
  have now: "toString 1700000000600 = ''1700000000600''"
    by (simp add: toString.simps digit_def)
  show ?thesis
    unfolding with_video_def handleAddVideoLink_def handleAddMedia_def now
    by (simp add: Let_def walk_selected_def map_selected_def selected_calls_def showToast_def
        sample_defs video1_def)
qed

theorem add_then_delete_media_witness:
  "selectedBookmark with_video = Some (link1\<lparr>media := [note1, video1]\<rparr>) \<and>
   activeFolderId with_video = Some ''default'' \<and>
   map media_id [note1, video1] = [''1700000000300'', ''1700000000600''] \<and>
   toString 1700000000900 = ''1700000000900'' \<and>
   folders (handleAddMedia Voice ''data:audio/webm;base64,BBBB'' 1700000000900 ''2023-11-14T22:13:20.900Z''
              with_video (with_video\<lparr>toast := None\<rparr>)) =
     [default_folder\<lparr>bookmarks :=
        [link1\<lparr>media := [note1, video1,
                            \<lparr>media_id = ''1700000000900'', media_type = Voice,
                               content = ''data:audio/webm;base64,BBBB'',
                               media_createdAt = ''2023-11-14T22:13:20.900Z''\<rparr>]\<rparr>, link2]\<rparr>, work] \<and>
   folders (deleteMedia (toString 1700000000900)
              (handleAddMedia Voice ''data:audio/webm;base64,BBBB'' 1700000000900 ''2023-11-14T22:13:20.900Z''
                 with_video (with_video\<lparr>toast := None\<rparr>))) =
     folders with_video"
proof -
  let ?st = "with_video\<lparr>toast := None\<rparr>"
  note store = with_video_store
  have sel: "selectedBookmark with_video = Some (link1\<lparr>media := [note1, video1]\<rparr>)"
    and act: "activeFolderId with_video = Some ''default''"
    using store by simp_all
  have same: "folders with_video = folders ?st" "selectedBookmark with_video = selectedBookmark ?st"
    "activeFolderId with_video = activeFolderId ?st"
    by simp_all
  have now: "toString 1700000000900 = ''1700000000900''"
    by (simp add: toString.simps digit_def)
  have ids: "map media_id [note1, video1] = [''1700000000300'', ''1700000000600'']"
    by (simp add: note1_def video1_def)
  have fresh: "\<forall>f\<in>set (folders ?st). folder_id f = ''default'' \<longrightarrow>
      (\<forall>b\<in>set (bookmarks f). bookmark_id b = bookmark_id (link1\<lparr>media := [note1, video1]\<rparr>) \<longrightarrow>
        (\<forall>m\<in>set (media b). media_id m \<noteq> toString 1700000000900))"
    unfolding now using store
    by (simp add: default_folder_def work_def link1_def link2_def link3_def note1_def video1_def)
  have added: "folders (handleAddMedia Voice ''data:audio/webm;base64,BBBB'' 1700000000900
        ''2023-11-14T22:13:20.900Z'' with_video ?st) =
     [default_folder\<lparr>bookmarks :=
        [link1\<lparr>media := [note1, video1,
                            \<lparr>media_id = ''1700000000900'', media_type = Voice,
                               content = ''data:audio/webm;base64,BBBB'',
                               media_createdAt = ''2023-11-14T22:13:20.900Z''\<rparr>]\<rparr>, link2]\<rparr>, work]"
    unfolding handleAddMedia_def now using store
    by (simp add: Let_def walk_selected_def map_selected_def showToast_def
        default_folder_def work_def link1_def link2_def link3_def)
  have round: "folders (deleteMedia (toString 1700000000900)
      (handleAddMedia Voice ''data:audio/webm;base64,BBBB'' 1700000000900
         ''2023-11-14T22:13:20.900Z'' with_video ?st)) = folders ?st"
    by (rule add_then_delete_media [OF sel act same fresh])
  show ?thesis
    using sel act ids now added round by simp
qed

text \<open>
  Two video links added within one reading of the clock, and a voice note that lands through
  the handler of the render in which its recording started, before the video link was added.
\<close>

theorem add_then_delete_media_counterexample:
  "folders with_video = [default_folder\<lparr>bookmarks := [link1\<lparr>media := [note1, video1]\<rparr>, link2]\<rparr>, work] \<and>
   folders (deleteMedia (toString 1700000000600)
              (handleAddVideoLink 1700000000600 ''2023-11-14T22:13:20.600Z''
                 (with_video\<lparr>videoUrlInput := ''https://youtu.be/oHg5SJYRHA0''\<rparr>))) =
     [default_folder\<lparr>bookmarks := [link1\<lparr>media := [note1]\<rparr>, link2]\<rparr>, work] \<and>
   folders (deleteMedia (toString 1700000000600)
              (handleAddVideoLink 1700000000600 ''2023-11-14T22:13:20.600Z''
                 (with_video\<lparr>videoUrlInput := ''https://youtu.be/oHg5SJYRHA0''\<rparr>)))
     \<noteq> folders with_video \<and>
   folders (handleAddMedia Voice ''data:audio/webm;base64,BBBB'' 1700000000900 ''2023-11-14T22:13:20.900Z''
              sample with_video) =
     [default_folder\<lparr>bookmarks :=
        [link1\<lparr>media := [note1,
                            \<lparr>media_id = ''1700000000900'', media_type = Voice,
                               content = ''data:audio/webm;base64,BBBB'',
                               media_createdAt = ''2023-11-14T22:13:20.900Z''\<rparr>]\<rparr>, link2]\<rparr>, work] \<and>
   folders (deleteMedia (toString 1700000000900)
              (handleAddMedia Voice ''data:audio/webm;base64,BBBB'' 1700000000900 ''2023-11-14T22:13:20.900Z''
                 sample with_video)) =
     [default_folder\<lparr>bookmarks := [link1\<lparr>media := [note1]\<rparr>, link2]\<rparr>, work] \<and>
   folders (deleteMedia (toString 1700000000900)
              (handleAddMedia Voice ''data:audio/webm;base64,BBBB'' 1700000000900 ''2023-11-14T22:13:20.900Z''
                 sample with_video))
     \<noteq> folders with_video"
proof -
  have now: "toString 1700000000600 = ''1700000000600''" "toString 1700000000900 = ''1700000000900''"
    by (simp_all add: toString.simps digit_def)
  note store = with_video_store
  have twice: "folders (deleteMedia ''1700000000600''
      (handleAddVideoLink 1700000000600 ''2023-11-14T22:13:20.600Z''
         (with_video\<lparr>videoUrlInput := ''https://youtu.be/oHg5SJYRHA0''\<rparr>))) =
     [default_folder\<lparr>bookmarks := [link1\<lparr>media := [note1]\<rparr>, link2]\<rparr>, work]"
    unfolding handleAddVideoLink_def handleAddMedia_def deleteMedia_def now using store
    by (simp add: Let_def walk_selected_def map_selected_def selected_calls_def showToast_def
        default_folder_def work_def link1_def link2_def link3_def note1_def video1_def)
  have landed: "folders (handleAddMedia Voice ''data:audio/webm;base64,BBBB'' 1700000000900
        ''2023-11-14T22:13:20.900Z'' sample with_video) =
     [default_folder\<lparr>bookmarks :=
        [link1\<lparr>media := [note1,
                            \<lparr>media_id = ''1700000000900'', media_type = Voice,
                               content = ''data:audio/webm;base64,BBBB'',
                               media_createdAt = ''2023-11-14T22:13:20.900Z''\<rparr>]\<rparr>, link2]\<rparr>, work]"
    unfolding handleAddMedia_def now
    by (simp add: Let_def walk_selected_def map_selected_def showToast_def sample_defs)
  have stale: "folders (deleteMedia ''1700000000900''
      (handleAddMedia Voice ''data:audio/webm;base64,BBBB'' 1700000000900
         ''2023-11-14T22:13:20.900Z'' sample with_video)) =
     [default_folder\<lparr>bookmarks := [link1\<lparr>media := [note1]\<rparr>, link2]\<rparr>, work]"
    unfolding handleAddMedia_def deleteMedia_def now using store
    by (simp add: Let_def walk_selected_def map_selected_def selected_calls_def showToast_def
        sample_defs)
  have differ: "[default_folder\<lparr>bookmarks := [link1\<lparr>media := [note1]\<rparr>, link2]\<rparr>, work] \<noteq>
      folders with_video"
    using store by (simp add: default_folder_def link1_def)
  show ?thesis
    using store twice landed stale differ by (simp add: now)
qed

subsection \<open>Unlocking a folder\<close>





lemma run_append: "run (xs @ ys) st = run ys (run xs st)"
  by (simp add: run_def)



text \<open>
  The IDs of the data model: an ID is \<^verbatim>\<open>default\<close> or a reading of the clock in decimal, so
  none is the empty string, in the initial store and after every event of a session; and a
  new folder keeps the IDs distinct when the clock has moved on.
\<close>

lemma toString_not_empty: "toString n \<noteq> []"
  by (subst toString.simps) simp

lemma map_selected_ids: "map folder_id (map_selected upd act sel fs) = map folder_id fs"
  by (induction fs) (simp_all add: map_selected_def)

lemma handleAddMedia_ids:
  "folder_id ` set (folders (handleAddMedia ty c now isoNow render st)) \<subseteq>
     folder_id ` set (folders render) \<union> folder_id ` set (folders st)"
proof -
  have "set (map folder_id (map_selected upd act sel (folders render))) =
      folder_id ` set (folders render)" for upd act sel
    by (simp only: map_selected_ids set_map)
  then show ?thesis
    by (auto simp add: handleAddMedia_def walk_selected_def showToast_def Let_def
        split: option.splits)
qed

lemma handleAddMedia_ids_ok:
  "ids_ok render \<Longrightarrow> ids_ok st \<Longrightarrow> ids_ok (handleAddMedia ty c now isoNow render st)"
  using handleAddMedia_ids [of ty c now isoNow render st] unfolding ids_ok_def by blast

lemma handleImageUpload_ids_ok:
  "ids_ok render \<Longrightarrow> ids_ok st \<Longrightarrow> ids_ok (handleImageUpload u now isoNow render st)"
proof -
  have toast: "ids_ok (showToast m t st) = ids_ok st" for m t
    by (simp add: ids_ok_def showToast_def)
  show "ids_ok render \<Longrightarrow> ids_ok st \<Longrightarrow> ids_ok (handleImageUpload u now isoNow render st)"
    by (simp add: handleImageUpload_def handleAddMedia_ids_ok toast split: option.splits)
qed

lemma deleteMedia_ids:
  "map folder_id (folders (deleteMedia m st)) = map folder_id (folders st)"
  by (simp add: deleteMedia_def walk_selected_def map_selected_ids split: option.splits)

lemma bookmarks_update_ids:
  "map folder_id (map (\<lambda>f. if P f then f\<lparr>bookmarks := g f\<rparr> else f) fs) = map folder_id fs"
  by (induction fs) simp_all

lemma handleAddBookmark_ids:
  "handleAddBookmark H ni ii n i st = Returns st' \<Longrightarrow>
   map folder_id (folders st') = map folder_id (folders st)"
  by (auto simp add: handleAddBookmark_def showToast_def Let_def bookmarks_update_ids
      simp del: map_map split: if_splits outcome.splits)

lemma step_ids_ok:
  assumes "ids_ok st" and "\<And>render. carried ev = Some render \<Longrightarrow> ids_ok render"
  shows "ids_ok (step ev st)"
proof (cases ev)
  case (CreateFolder now)
  then show ?thesis
    using assms(1) toString_not_empty [of now, symmetric]
    by (simp add: ids_ok_def handleCreateFolder_def showToast_def)
next
  case (AddBookmark H ni ii n i)
  have "folder_id ` set (folders st') = folder_id ` set (folders st)"
    if "handleAddBookmark H ni ii n i st = Returns st'" for st'
    using handleAddBookmark_ids [OF that] by (metis set_map)
  then show ?thesis
    using assms(1) AddBookmark by (auto simp add: ids_ok_def split: outcome.splits)
next
  case (SaveRecording r c n i)
  then show ?thesis
    using assms by (simp add: handleAddMedia_ids_ok)
next
  case (ImageUpload r u n i)
  then have "ids_ok r"
    using assms(2) by simp
  then have "ids_ok (handleImageUpload u n i r st)"
    using assms(1) by (rule handleImageUpload_ids_ok)
  then show ?thesis
    using ImageUpload by simp
next
  case (AddVideoLink n i)
  have "ids_ok (handleAddMedia Video c n i st st)" for c
    using assms(1) assms(1) by (rule handleAddMedia_ids_ok)
  then have "[] \<notin> folder_id ` set (folders (handleAddMedia Video c n i st st))" for c
    by (simp add: ids_ok_def)
  then have "ids_ok (handleAddVideoLink n i st)"
    using assms(1) by (simp add: handleAddVideoLink_def Let_def ids_ok_def)
  then show ?thesis
    using AddVideoLink by simp
next
  case (DeleteMedia m)
  have "folder_id ` set (folders (deleteMedia m st)) = folder_id ` set (folders st)"
    using deleteMedia_ids [of m st] by (metis set_map)
  then show ?thesis
    using assms(1) DeleteMedia by (simp add: ids_ok_def)
next
  case (DeleteBookmark bid c)
  have "map folder_id (folders (deleteBookmark bid c st)) = map folder_id (folders st)"
    by (simp add: deleteBookmark_def bookmarks_update_ids del: map_map)
  then have "folder_id ` set (folders (deleteBookmark bid c st)) = folder_id ` set (folders st)"
    by (metis set_map)
  then show ?thesis
    using assms(1) DeleteBookmark by (simp add: ids_ok_def)
next
  case (DeleteFromModal c)
  have "map folder_id (folders (handleDeleteFromModal c st)) = map folder_id (folders st)"
    by (simp add: handleDeleteFromModal_def showToast_def bookmarks_update_ids del: map_map
        split: option.splits)
  then have "folder_id ` set (folders (handleDeleteFromModal c st)) = folder_id ` set (folders st)"
    by (metis set_map)
  then show ?thesis
    using assms(1) DeleteFromModal by (simp add: ids_ok_def)
qed (use assms(1) in \<open>simp_all add: ids_ok_def handleCreationImageUpload_def handleUnlock_def
    selectFolder_def showToast_def Let_def split: option.splits\<close>)

lemma run_ids_ok:
  "\<forall>s\<in>set (st # past). ids_ok s \<Longrightarrow> closures_ok past evs st \<Longrightarrow> ids_ok (run evs st)"
proof (induction evs arbitrary: past st)
  case Nil
  then show ?case by (simp add: run_def)
next
  case (Cons ev evs)
  have here: "ids_ok st" and before: "\<forall>s\<in>set (st # past). ids_ok s"
    using Cons.prems(1) by simp_all
  have "ids_ok render" if "carried ev = Some render" for render
    using Cons.prems(2) that before by auto
  then have "ids_ok (step ev st)"
    using here by (intro step_ids_ok)
  then have "\<forall>s\<in>set (step ev st # st # past). ids_ok s"
    using before by simp
  moreover have "closures_ok (st # past) evs (step ev st)"
    using Cons.prems(2) by simp
  ultimately have "ids_ok (run evs (step ev st))"
    by (rule Cons.IH)
  then show ?case by (simp add: run_def)
qed

lemma session_ids_ok:
  "closures_ok [] evs (init [default_folder]) \<Longrightarrow> ids_ok (run evs (init [default_folder]))"
  by (rule run_ids_ok) (simp_all add: ids_ok_def init_def default_folder_def)

lemma handleCreateFolder_distinct:
  "distinct (map folder_id (folders st)) \<Longrightarrow> toString now \<notin> folder_id ` set (folders st) \<Longrightarrow>
   distinct (map folder_id (folders (handleCreateFolder now st)))"
  by (simp add: handleCreateFolder_def showToast_def)



subsection \<open>Adding a bookmark\<close>

lemma handleAddBookmark_blank:
  "trim (newBookmarkUrl st) = [] \<Longrightarrow> handleAddBookmark H ni ii n i st = Returns st"
  by (simp add: handleAddBookmark_def)

lemma handleAddBookmark_throws:
  "\<not> has_scheme (newBookmarkUrl st) \<Longrightarrow> trim (newBookmarkUrl st) \<noteq> [] \<Longrightarrow> newBookmarkTitle st = [] \<Longrightarrow>
   H (''https://'' @ newBookmarkUrl st) = Throws \<Longrightarrow>
   handleAddBookmark H ni ii n i st = Throws"
  by (simp add: handleAddBookmark_def Let_def)

lemma handleAddBookmark_stores:
  assumes plain: "\<not> has_scheme (newBookmarkUrl st)" and filled: "trim (newBookmarkUrl st) \<noteq> []"
    and named: "newBookmarkTitle st \<noteq> [] \<or> H (''https://'' @ newBookmarkUrl st) = Returns host"
  shows "\<exists>st' b. handleAddBookmark H ni ii n i st = Returns st' \<and>
      url b = ''https://'' @ newBookmarkUrl st \<and>
      title b = (if newBookmarkTitle st \<noteq> [] then newBookmarkTitle st else host) \<and>
      folders st' =
        map (\<lambda>f. if Some (folder_id f) = activeFolderId st then f\<lparr>bookmarks := b # bookmarks f\<rparr> else f)
          (folders st)"
proof -
  let ?t = "if newBookmarkTitle st \<noteq> [] then newBookmarkTitle st else host"
  let ?b = "\<lparr>bookmark_id = toString n,
      title = ?t,
      url = ''https://'' @ newBookmarkUrl st,
      description = (if newBookmarkDesc st \<noteq> [] then newBookmarkDesc st else ''A mysterious link...''),
      bookmark_createdAt = i,
      media = (case newBookmarkImg st of
                 None \<Rightarrow> []
               | Some img \<Rightarrow>
                   if img = [] then []
                   else [\<lparr>media_id = toString ni @ ''_img'', media_type = Image,
                           content = img, media_createdAt = ii\<rparr>])\<rparr>"
  let ?st' = "showToast ''Bookmark added'' Success
       (st\<lparr>folders :=
             map (\<lambda>f. if Some (folder_id f) = activeFolderId st then f\<lparr>bookmarks := ?b # bookmarks f\<rparr> else f)
               (folders st),
           newBookmarkUrl := [],
           newBookmarkTitle := [],
           newBookmarkDesc := [],
           newBookmarkImg := None,
           isAddBookmarkModalOpen := False\<rparr>)"
  have "handleAddBookmark H ni ii n i st = Returns ?st'"
  proof (cases "newBookmarkTitle st = []")
    case True
    then have "H (''https://'' @ newBookmarkUrl st) = Returns host"
      using named by simp
    then show ?thesis
      using plain filled True by (simp add: handleAddBookmark_def Let_def cong: if_cong)
  next
    case False
    then show ?thesis
      using plain filled by (simp add: handleAddBookmark_def Let_def cong: if_cong)
  qed
  moreover have "url ?b = ''https://'' @ newBookmarkUrl st" and "title ?b = ?t"
    by simp_all
  moreover have "folders ?st' =
        map (\<lambda>f. if Some (folder_id f) = activeFolderId st then f\<lparr>bookmarks := ?b # bookmarks f\<rparr> else f)
          (folders st)"
    by (simp add: showToast_def)
  ultimately show ?thesis by blast
qed

text \<open>
  C2. For an input whose URL does not start with \<^verbatim>\<open>http://\<close> or \<^verbatim>\<open>https://\<close> in any case of the
  letters: a blank URL stores nothing; with no title and a URL that the platform does not
  parse, the handler throws and stores nothing; in every other case the handler returns, and
  the folder with the active ID gets, in front of its bookmarks, one whose URL is the input
  after \<^verbatim>\<open>https://\<close> and whose title is the typed title or, without one, the host name the
  platform reads off that URL. Every other folder is unchanged.
\<close>

theorem handleAddBookmark_spec:
  assumes "\<not> has_scheme (newBookmarkUrl st)"
  shows
    "(trim (newBookmarkUrl st) = [] \<longrightarrow> handleAddBookmark H ni ii n i st = Returns st) \<and>
     (trim (newBookmarkUrl st) \<noteq> [] \<and> newBookmarkTitle st = [] \<and>
      H (''https://'' @ newBookmarkUrl st) = Throws \<longrightarrow>
        handleAddBookmark H ni ii n i st = Throws) \<and>
     (trim (newBookmarkUrl st) \<noteq> [] \<and>
      (newBookmarkTitle st \<noteq> [] \<or> H (''https://'' @ newBookmarkUrl st) = Returns host) \<longrightarrow>
        (\<exists>st' b. handleAddBookmark H ni ii n i st = Returns st' \<and>
           url b = ''https://'' @ newBookmarkUrl st \<and>
           title b = (if newBookmarkTitle st \<noteq> [] then newBookmarkTitle st else host) \<and>
           folders st' =
             map (\<lambda>f. if Some (folder_id f) = activeFolderId st
                      then f\<lparr>bookmarks := b # bookmarks f\<rparr> else f)
               (folders st)))"
  using assms handleAddBookmark_blank [of st H ni ii n i] handleAddBookmark_throws [of st H ni ii n i]
    handleAddBookmark_stores [of st H host ni ii n i]
  by blast

theorem handleAddBookmark_spec_witness:
  "has_scheme ''example.com'' = False \<and>
   has_scheme ''HTTPS://example.com'' = True \<and>
   (\<exists>st' b. handleAddBookmark
        (\<lambda>u. if u = ''https://example.com'' then Returns ''example.com'' else Throws)
        1700000000700 ''2023-11-14T22:13:20.700Z'' 1700000000701 ''2023-11-14T22:13:20.701Z''
        (sample\<lparr>newBookmarkUrl := ''example.com''\<rparr>) = Returns st' \<and>
      url b = ''https://example.com'' \<and>
      title b = ''example.com'' \<and>
      folders st' = [default_folder\<lparr>bookmarks := [b, link1, link2]\<rparr>, work])"
proof -
  let ?H = "\<lambda>u. if u = ''https://example.com'' then Returns ''example.com'' else Throws"
  let ?st = "sample\<lparr>newBookmarkUrl := ''example.com''\<rparr>"
  have plain: "\<not> has_scheme (newBookmarkUrl ?st)"
    by (simp add: has_scheme_def lower_def)
  have other: "has_scheme ''HTTPS://example.com''"
    by (simp add: has_scheme_def lower_def)
  have filled: "trim (newBookmarkUrl ?st) \<noteq> []"
    by (simp add: trim_def white_space_def strip.simps)
  have host: "newBookmarkTitle ?st \<noteq> [] \<or> ?H (''https://'' @ newBookmarkUrl ?st) = Returns ''example.com''"
    by simp
  have store: "\<And>b. map (\<lambda>f. if Some (folder_id f) = activeFolderId ?st
                         then f\<lparr>bookmarks := b # bookmarks f\<rparr> else f) (folders ?st) =
      [default_folder\<lparr>bookmarks := [b, link1, link2]\<rparr>, work]"
    by (simp add: sample_def init_def default_folder_def work_def)
  have untitled: "newBookmarkTitle ?st = []"
    by (simp add: sample_def init_def)
  from handleAddBookmark_spec [OF plain, of ?H 1700000000700 "''2023-11-14T22:13:20.700Z''"
      1700000000701 "''2023-11-14T22:13:20.701Z''" "''example.com''"] filled host
  obtain st' b where
    "handleAddBookmark ?H 1700000000700 ''2023-11-14T22:13:20.700Z'' 1700000000701
       ''2023-11-14T22:13:20.701Z'' ?st = Returns st'"
    "url b = ''https://'' @ newBookmarkUrl ?st"
    "title b = (if newBookmarkTitle ?st \<noteq> [] then newBookmarkTitle ?st else ''example.com'')"
    "folders st' = map (\<lambda>f. if Some (folder_id f) = activeFolderId ?st
                         then f\<lparr>bookmarks := b # bookmarks f\<rparr> else f) (folders ?st)"
    by blast
  then have "handleAddBookmark ?H 1700000000700 ''2023-11-14T22:13:20.700Z'' 1700000000701
       ''2023-11-14T22:13:20.701Z'' ?st = Returns st' \<and>
      url b = ''https://example.com'' \<and> title b = ''example.com'' \<and>
      folders st' = [default_folder\<lparr>bookmarks := [b, link1, link2]\<rparr>, work]"
    using store [of b] untitled by simp
  then show ?thesis
    using plain other by auto
qed

subsection \<open>The unlocked set in a session\<close>

lemma handleAddMedia_unlocked:
  "unlockedFolders (handleAddMedia ty c now isoNow render st) = unlockedFolders st"
  by (simp add: handleAddMedia_def walk_selected_def showToast_def Let_def split: option.splits)

lemma handleAddBookmark_unlocked:
  "handleAddBookmark H ni ii n i st = Returns st' \<Longrightarrow> unlockedFolders st' = unlockedFolders st"
  by (auto simp add: handleAddBookmark_def showToast_def Let_def split: if_splits outcome.splits)

lemma step_other:
  "ev \<noteq> Unlock \<Longrightarrow> unlockedFolders (step ev st) = unlockedFolders st"
proof (cases ev)
  case (AddBookmark H ni ii n i)
  then show ?thesis
    by (simp add: handleAddBookmark_unlocked split: outcome.splits)
next
  case (AddVideoLink n i)
  then show ?thesis
    by (simp add: handleAddVideoLink_def handleAddMedia_unlocked Let_def)
next
  case (ImageUpload r u n i)
  then show ?thesis
    by (simp add: handleImageUpload_def handleAddMedia_unlocked showToast_def split: option.splits)
qed (simp_all add: handleCreateFolder_def handleAddMedia_unlocked handleCreationImageUpload_def
    deleteMedia_def walk_selected_def selectFolder_def deleteBookmark_def handleDeleteFromModal_def
    showToast_def Let_def split: option.splits)

lemma step_unlock:
  "unlockedFolders (step Unlock st) \<noteq> unlockedFolders st \<Longrightarrow>
   \<exists>i f. folderToUnlock st = Some i \<and> find (\<lambda>g. folder_id g = i) (folders st) = Some f \<and>
     password f = unlockInput st \<and>
     unlockedFolders (step Unlock st) = insert i (unlockedFolders st)"
  by (auto simp add: handleUnlock_def showToast_def Let_def split: option.splits if_splits)

lemma step_mono: "unlockedFolders st \<subseteq> unlockedFolders (step ev st)"
proof (cases "ev = Unlock")
  case True
  then show ?thesis using step_unlock [of st] by (cases "unlockedFolders (step Unlock st) = unlockedFolders st") auto
next
  case False
  then show ?thesis by (simp add: step_other)
qed

lemma run_mono: "unlockedFolders st \<subseteq> unlockedFolders (run evs st)"
proof (induction evs arbitrary: st)
  case Nil
  then show ?case by (simp add: run_def)
next
  case (Cons ev evs)
  have "unlockedFolders st \<subseteq> unlockedFolders (step ev st)" by (rule step_mono)
  also have "\<dots> \<subseteq> unlockedFolders (run evs (step ev st))" by (rule Cons.IH)
  finally show ?case by (simp add: run_def)
qed

text \<open>
  C9. No event but the unlock button changes the unlocked set; when the button changes it,
  the dialog was open for a folder of the store whose password equals the input, and the new
  set is the old one with the ID of that folder added. So no event removes an ID, and in a
  session the set after a prefix of the events is contained in the set after any longer one.
\<close>

theorem unlocked_monotone:
  "(ev \<noteq> Unlock \<longrightarrow> unlockedFolders (step ev st) = unlockedFolders st) \<and>
   (unlockedFolders (step Unlock st) \<noteq> unlockedFolders st \<longrightarrow>
      (\<exists>i f. folderToUnlock st = Some i \<and> find (\<lambda>g. folder_id g = i) (folders st) = Some f \<and>
         password f = unlockInput st \<and>
         unlockedFolders (step Unlock st) = insert i (unlockedFolders st))) \<and>
   unlockedFolders st \<subseteq> unlockedFolders (step ev st) \<and>
   unlockedFolders (run evs st) \<subseteq> unlockedFolders (run (evs @ evs') st)"
  using step_other [of ev st] step_unlock [of st] step_mono [of st ev] run_mono [of "run evs st" evs']
  by (simp add: run_append)

theorem unlocked_monotone_witness:
  "unlockedFolders
     (run [SelectFolder ''default'' 1280, TypeUnlockInput ''123'', Unlock]
        (init [default_folder\<lparr>bookmarks := [link1, link2]\<rparr>, work])) = {''default''} \<and>
   ''default'' \<in> unlockedFolders
     (run ([SelectFolder ''default'' 1280, TypeUnlockInput ''123'', Unlock] @
           [SelectFolder ''1700000000400'' 1280, TypeUnlockInput ''nope'', Unlock, CloseUnlock,
            OpenDetail link1, DeleteMedia ''1700000000300'', DeleteBookmark ''1700000000200'' True,
            CreateFolder 1700000000800])
        (init [default_folder\<lparr>bookmarks := [link1, link2]\<rparr>, work])) \<and>
   unlockedFolders
     (step (DeleteBookmark ''1700000000200'' True)
        (init [default_folder\<lparr>bookmarks := [link1, link2]\<rparr>, work])) = {}"
proof -
  let ?s0 = "init [default_folder\<lparr>bookmarks := [link1, link2]\<rparr>, work]"
  let ?evs = "[SelectFolder ''default'' 1280, TypeUnlockInput ''123'', Unlock]"
  have first: "unlockedFolders (run ?evs ?s0) = {''default''}"
    by (simp add: run_def selectFolder_def handleUnlock_def init_def default_folder_def work_def)
  have other: "DeleteBookmark ''1700000000200'' True \<noteq> Unlock"
    by simp
  have empty: "unlockedFolders ?s0 = {}"
    by (simp add: init_def)
  show ?thesis
    using first other empty
      unlocked_monotone [of "DeleteBookmark ''1700000000200'' True" ?s0 ?evs
        "[SelectFolder ''1700000000400'' 1280, TypeUnlockInput ''nope'', Unlock, CloseUnlock,
          OpenDetail link1, DeleteMedia ''1700000000300'', DeleteBookmark ''1700000000200'' True,
          CreateFolder 1700000000800]"]
    by auto
qed

subsection \<open>The AI gateway\<close>

lemma callGemini_no_key:
  "callGemini [] fetch prompt sys = (JString ''Error: API Key is missing.'', [])"
  by (simp add: callGemini_def)

lemma callGemini_not_ok:
  "apiKey \<noteq> [] \<Longrightarrow> fetch (gemini_request apiKey prompt sys) = Returns resp \<Longrightarrow> \<not> ok resp \<Longrightarrow>
   callGemini apiKey fetch prompt sys =
     (JString ''The connection to the ether was severed. Please try again.'', [gemini_request apiKey prompt sys])"
  by (simp add: callGemini_def severed_def Let_def)

lemma handleOracleChat_no_key:
  "trim (oracleInput st) \<noteq> [] \<Longrightarrow>
   handleOracleChat [] fetch JSON_stringify st =
     [SetOracleInput [],
      AppendOracleHistory \<lparr>role = User, chat_text = JString (oracleInput st)\<rparr>,
      SetOracleThinking True,
      AppendOracleHistory \<lparr>role = Model, chat_text = JString ''Error: API Key is missing.''\<rparr>,
      SetOracleThinking False]"
  by (simp add: handleOracleChat_def callGemini_no_key)

text \<open>
  C8. Without a key \<^verbatim>\<open>callGemini\<close> resolves to the string \<^verbatim>\<open>Error: API Key is missing.\<close> and
  issues no request, whatever the network would do; with a key and a response whose status is
  not a success it resolves to the string \<^verbatim>\<open>The connection to the ether was severed. Please
  try again.\<close>, after the one request. In neither case does it throw.
\<close>

theorem callGemini_fallback:
  "callGemini [] fetch prompt sys = (JString ''Error: API Key is missing.'', []) \<and>
   (apiKey \<noteq> [] \<and> fetch (gemini_request apiKey prompt sys) = Returns resp \<and> \<not> ok resp \<longrightarrow>
      callGemini apiKey fetch prompt sys =
        (JString ''The connection to the ether was severed. Please try again.'',
         [gemini_request apiKey prompt sys]))"
  using callGemini_no_key [of fetch prompt sys] callGemini_not_ok [of apiKey fetch prompt sys resp]
  by blast

theorem callGemini_fallback_witness:
  "callGemini [] sample_fetch ''Which links do I keep?'' ''You are The Oracle'' =
     (JString ''Error: API Key is missing.'', []) \<and>
   ok \<lparr>ok = False, status = 503, response_json = Throws\<rparr> = False \<and>
   callGemini ''AIzaSy'' (\<lambda>req. Returns \<lparr>ok = False, status = 503, response_json = Throws\<rparr>)
       ''Which links do I keep?'' ''You are The Oracle'' =
     (JString ''The connection to the ether was severed. Please try again.'',
      [gemini_request ''AIzaSy'' ''Which links do I keep?'' ''You are The Oracle''])"
  using callGemini_fallback [of sample_fetch "''Which links do I keep?''" "''You are The Oracle''"
      "''AIzaSy''" "\<lparr>ok = False, status = 503, response_json = Throws\<rparr>"]
    callGemini_fallback [of "\<lambda>req. Returns \<lparr>ok = False, status = 503, response_json = Throws\<rparr>"
      "''Which links do I keep?''" "''You are The Oracle''"
      "''AIzaSy''" "\<lparr>ok = False, status = 503, response_json = Throws\<rparr>"]
  by simp

subsection \<open>Enrichment\<close>

lemma enchant_unparsed:
  "JSON_parse (strip_fences r) = Throws \<Longrightarrow> enchant_reply JSON_parse (JString r) = [confused]"
  by (simp add: enchant_reply_def)

lemma handleEnchant_unfold:
  "newBookmarkUrl st \<noteq> [] \<Longrightarrow>
   callGemini apiKey fetch (enchant_prompt (newBookmarkUrl st))
     ''You are a helpful digital archivist. Return ONLY raw JSON.'' = (result, reqs) \<Longrightarrow>
   handleEnchant apiKey fetch JSON_parse st =
     [SetIsEnchanting True] @ map Fetched reqs @ enchant_reply JSON_parse result @ [SetIsEnchanting False]"
  by (simp add: handleEnchant_def)

text \<open>
  C7. An enrichment whose reply does not parse as JSON, the handler having stripped the
  Markdown fences as it does before it parses, calls neither the setter of the title nor that
  of the description and shows the error toast; the handler does not throw. When the reply
  parses to an object, the handler calls the setter of the title with the object's title if
  that is truthy and the setter of the description with the object's description if that is
  truthy, and shows the success toast, so that a reply with only one of the two has only that
  one applied.
\<close>

theorem handleEnchant_spec:
  assumes "newBookmarkUrl st \<noteq> []"
    and "callGemini apiKey fetch (enchant_prompt (newBookmarkUrl st))
           ''You are a helpful digital archivist. Return ONLY raw JSON.'' = (JString r, reqs)"
  shows
    "(JSON_parse (strip_fences r) = Throws \<longrightarrow>
        handleEnchant apiKey fetch JSON_parse st =
          [SetIsEnchanting True] @ map Fetched reqs @
          [ShowToast ''The spirits are confused. Try manual entry.'' Error, SetIsEnchanting False]) \<and>
     (JSON_parse (strip_fences r) = Returns (JObject kvs) \<longrightarrow>
        handleEnchant apiKey fetch JSON_parse st =
          [SetIsEnchanting True] @ map Fetched reqs @
          when_truthy (map_of kvs ''title'') SetNewBookmarkTitle @
          when_truthy (map_of kvs ''description'') SetNewBookmarkDesc @
          [illuminated, SetIsEnchanting False]) \<and>
     (JSON_parse (strip_fences r) = Returns (JObject kvs) \<and>
      map_of kvs ''title'' = Some (JString t) \<and> t \<noteq> [] \<and> map_of kvs ''description'' = None \<longrightarrow>
        handleEnchant apiKey fetch JSON_parse st =
          [SetIsEnchanting True] @ map Fetched reqs @
          [SetNewBookmarkTitle (JString t), illuminated, SetIsEnchanting False]) \<and>
     (JSON_parse (strip_fences r) = Returns (JObject kvs) \<and>
      map_of kvs ''title'' = None \<and> map_of kvs ''description'' = Some (JString d) \<and> d \<noteq> [] \<longrightarrow>
        handleEnchant apiKey fetch JSON_parse st =
          [SetIsEnchanting True] @ map Fetched reqs @
          [SetNewBookmarkDesc (JString d), illuminated, SetIsEnchanting False])"
proof -
  note unfold = handleEnchant_unfold [OF assms, of JSON_parse]
  have parsed: "JSON_parse (strip_fences r) = Returns (JObject kvs) \<Longrightarrow>
      enchant_reply JSON_parse (JString r) =
        when_truthy (map_of kvs ''title'') SetNewBookmarkTitle @
        when_truthy (map_of kvs ''description'') SetNewBookmarkDesc @ [illuminated]"
    by (simp add: enchant_reply_def get_named_def)
  show ?thesis
    using unfold enchant_unparsed [of JSON_parse r] parsed
    by (auto simp add: when_truthy_def confused_def)
qed

theorem handleEnchant_spec_witness:
  "strip_fences ''I can not open links.'' = ''I can not open links.'' \<and>
   sample_parse ''I can not open links.'' = Throws \<and>
   handleEnchant ''AIzaSy''
       (\<lambda>req. Returns \<lparr>ok = True, status = 200,
          response_json = Returns (JObject [(''candidates'', JArray [JObject [(''content'',
            JObject [(''parts'', JArray [JObject [(''text'',
              JString ''I can not open links.'')]])])]])])\<rparr>)
       sample_parse ((init [default_folder])\<lparr>newBookmarkUrl := ''example.com''\<rparr>) =
     [SetIsEnchanting True,
      Fetched (gemini_request ''AIzaSy'' (enchant_prompt ''example.com'')
                 ''You are a helpful digital archivist. Return ONLY raw JSON.''),
      ShowToast ''The spirits are confused. Try manual entry.'' Error,
      SetIsEnchanting False] \<and>
   sample_parse (strip_fences fenced_reply) = Returns (JObject [(''title'', JString ''Example Domain'')]) \<and>
   handleEnchant ''AIzaSy'' sample_fetch sample_parse
       ((init [default_folder])\<lparr>newBookmarkUrl := ''example.com''\<rparr>) =
     [SetIsEnchanting True,
      Fetched (gemini_request ''AIzaSy'' (enchant_prompt ''example.com'')
                 ''You are a helpful digital archivist. Return ONLY raw JSON.''),
      SetNewBookmarkTitle (JString ''Example Domain''),
      illuminated,
      SetIsEnchanting False]"
proof -
  let ?st = "(init [default_folder])\<lparr>newBookmarkUrl := ''example.com''\<rparr>"
  let ?sys = "''You are a helpful digital archivist. Return ONLY raw JSON.''"
  let ?req = "gemini_request ''AIzaSy'' (enchant_prompt ''example.com'') ?sys"
  let ?plain_fetch = "\<lambda>req :: request. Returns \<lparr>ok = True, status = 200,
          response_json = Returns (JObject [(''candidates'', JArray [JObject [(''content'',
            JObject [(''parts'', JArray [JObject [(''text'',
              JString ''I can not open links.'')]])])]])])\<rparr>"
  have typed: "newBookmarkUrl ?st \<noteq> []"
    by simp
  have plain: "callGemini ''AIzaSy'' ?plain_fetch (enchant_prompt (newBookmarkUrl ?st)) ?sys =
      (JString ''I can not open links.'', [?req])"
    by (simp add: callGemini_def candidate_text_def and_then_def opt_chain_def get_named_def
        get_index0_def or_else_def)
  have fenced: "callGemini ''AIzaSy'' sample_fetch (enchant_prompt (newBookmarkUrl ?st)) ?sys =
      (JString fenced_reply, [?req])"
    by (simp add: callGemini_def sample_fetch_def candidate_text_def and_then_def opt_chain_def
        get_named_def get_index0_def or_else_def fenced_reply_def)
  have kept: "strip_fences ''I can not open links.'' = ''I can not open links.''"
    by simp
  have rejected: "sample_parse ''I can not open links.'' = Throws"
    by (simp add: sample_parse_def)
  have read: "sample_parse (strip_fences fenced_reply) =
      Returns (JObject [(''title'', JString ''Example Domain'')])"
    by (simp add: sample_parse_def fenced_reply_def)
  show ?thesis
    using kept rejected read
      handleEnchant_spec [OF typed plain, of sample_parse "[]" "[]" "[]"]
      handleEnchant_spec [OF typed fenced, of sample_parse "[(''title'', JString ''Example Domain'')]"
        "''Example Domain''" "[]"]
    by (simp add: when_truthy_def)
qed

subsection \<open>Loading the store\<close>

lemma load_cases:
  "load Throws P = Folders []"
  "load (Returns None) P = Folders [default_folder]"
  "load (Returns (Some [])) P = Folders [default_folder]"
  "t \<noteq> [] \<Longrightarrow> P t = Throws \<Longrightarrow> load (Returns (Some t)) P = Folders []"
  "t \<noteq> [] \<Longrightarrow> P t = Returns v \<Longrightarrow> load (Returns (Some t)) P = Unchecked v"
  by (simp_all add: load_def)

text \<open>
  C1. The initialiser of the store returns the single default folder when nothing is stored
  under the key or the stored string is empty, and the empty sequence when reading the storage
  throws or the stored string is not parseable as JSON; a stored string that parses gives the
  parsed value as it is, without a check that it is a sequence of folders.
\<close>

theorem load_spec:
  "load (Returns None) JSON_parse = Folders [default_folder] \<and>
   load (Returns (Some [])) JSON_parse = Folders [default_folder] \<and>
   load Throws JSON_parse = Folders [] \<and>
   (t \<noteq> [] \<and> JSON_parse t = Throws \<longrightarrow> load (Returns (Some t)) JSON_parse = Folders []) \<and>
   (t \<noteq> [] \<and> JSON_parse t = Returns v \<longrightarrow> load (Returns (Some t)) JSON_parse = Unchecked v)"
  by (simp add: load_cases)

theorem load_spec_witness:
  "sample_parse ''{not json'' = Throws \<and>
   load (Returns (Some ''{not json'')) sample_parse = Folders [] \<and>
   sample_parse ''[]'' = Returns (JArray []) \<and>
   load (Returns (Some ''[]'')) sample_parse = Unchecked (JArray []) \<and>
   load (Returns None) sample_parse =
     Folders [\<lparr>folder_id = ''default'', folder_name = ''Inspiration'', password = ''123'', bookmarks = []\<rparr>]"
proof -
  have rejected: "''{not json'' \<noteq> [] \<and> sample_parse ''{not json'' = Throws"
    by (simp add: sample_parse_def)
  have read: "''[]'' \<noteq> [] \<and> sample_parse ''[]'' = Returns (JArray [])"
    by (simp add: sample_parse_def)
  show ?thesis
    using rejected read load_spec [of sample_parse "''{not json''" "JArray []"]
      load_spec [of sample_parse "''[]''" "JArray []"]
    by (simp add: default_folder_def)
qed

theorem load_spec_counterexample:
  "sample_parse ''{not json'' = Throws \<and>
   load (Returns (Some ''{not json'')) sample_parse = Folders [] \<and>
   load (Returns (Some ''{not json'')) sample_parse \<noteq> Folders [default_folder] \<and>
   sample_parse ''42'' = Returns (JNumber 42) \<and>
   load (Returns (Some ''42'')) sample_parse = Unchecked (JNumber 42)"
  by (simp add: load_def sample_parse_def)

end
